theory Spec2Isabelle
  imports Main "HOL-Library.Word"
begin

section \<open>Scope\<close>

text \<open>
  The theory follows \<^verbatim>\<open>src/extension.ts\<close>: the command \<^verbatim>\<open>generateCommitMessage\<close>
  (lines 107 to 191) and the function \<^verbatim>\<open>runPythonScript\<close> (lines 193 to 233) that
  launches the external generator and reads its result. The generator itself is a
  process outside the program: it appears as the events its run produces. The two
  set-up functions of the extension take no part in the command and are not modelled.
\<close>

section \<open>JavaScript text\<close>

text \<open>
  A JavaScript string is a sequence of 16-bit code units. String literals of the
  source are written \<open>js ''...''\<close>; every character of such a literal is one code unit.
\<close>

type_synonym code_unit = "16 word"
type_synonym js_string = "code_unit list"

definition js :: "string \<Rightarrow> js_string" where
  "js s = map of_char s"

abbreviation (input) QUOTE :: code_unit where "QUOTE \<equiv> 0x22"
abbreviation (input) BACKSLASH :: code_unit where "BACKSLASH \<equiv> 0x5C"
abbreviation (input) LBRACE :: code_unit where "LBRACE \<equiv> 0x7B"
abbreviation (input) RBRACE :: code_unit where "RBRACE \<equiv> 0x7D"
abbreviation (input) LBRACKET :: code_unit where "LBRACKET \<equiv> 0x5B"
abbreviation (input) RBRACKET :: code_unit where "RBRACKET \<equiv> 0x5D"
abbreviation (input) COLON :: code_unit where "COLON \<equiv> 0x3A"
abbreviation (input) COMMA :: code_unit where "COMMA \<equiv> 0x2C"
abbreviation (input) MINUS :: code_unit where "MINUS \<equiv> 0x2D"
abbreviation (input) PLUS :: code_unit where "PLUS \<equiv> 0x2B"
abbreviation (input) DOT :: code_unit where "DOT \<equiv> 0x2E"

text \<open>
  \<^verbatim>\<open>s.lastIndexOf(c)\<close> for a one-character search string: the index of the last
  occurrence, or \<open>-1\<close> when there is none. The loop runs over the text from the left
  and keeps the last index it has seen.
\<close>

fun lastIndexOf_from :: "int \<Rightarrow> int \<Rightarrow> js_string \<Rightarrow> code_unit \<Rightarrow> int" where
  "lastIndexOf_from i found [] c = found"
| "lastIndexOf_from i found (x # xs) c =
     lastIndexOf_from (i + 1) (if x = c then i else found) xs c"

definition lastIndexOf :: "js_string \<Rightarrow> code_unit \<Rightarrow> int" where
  "lastIndexOf s c = lastIndexOf_from 0 (- 1) s c"

text \<open>
  \<^verbatim>\<open>s.substring(start)\<close>: a negative start counts as 0, a start beyond the end as
  the length.
\<close>

definition substring :: "js_string \<Rightarrow> int \<Rightarrow> js_string" where
  "substring s start = drop (nat (min (max start 0) (int (length s)))) s"

text \<open>\<^verbatim>\<open>s.includes(t)\<close> on strings: \<open>t\<close> occurs in \<open>s\<close> as a contiguous run.\<close>

fun String_includes :: "js_string \<Rightarrow> js_string \<Rightarrow> bool" where
  "String_includes [] t = (t = [])"
| "String_includes (c # s) t = (take (length t) (c # s) = t \<or> String_includes s t)"

text \<open>
  \<^verbatim>\<open>n.toString()\<close> and \<^verbatim>\<open>`${n}`\<close> for an integral number such as an exit code:
  its decimal digits, with a minus sign when negative.
\<close>

fun nat_digits :: "nat \<Rightarrow> js_string" where
  "nat_digits n =
     (if n < 10 then [of_nat (48 + n)]
      else nat_digits (n div 10) @ [of_nat (48 + n mod 10)])"

declare nat_digits.simps [simp del]

definition int_toString :: "int \<Rightarrow> js_string" where
  "int_toString i = (if i < 0 then MINUS # nat_digits (nat (- i)) else nat_digits (nat i))"

section \<open>JSON values and \<^verbatim>\<open>JSON.parse\<close>\<close>

text \<open>
  The value \<^verbatim>\<open>JSON.parse\<close> returns. A number is kept as the decimal it was written
  as: \<open>JNumber m e\<close> stands for \<open>m * 10 ^ e\<close>. An object keeps its members in the
  order of the text; a repeated key is looked up at its last occurrence, since a later
  member overwrites an earlier one.
\<close>

datatype json =
    JNull
  | JBool bool
  | JNumber int int
  | JString js_string
  | JArray "json list"
  | JObject "(js_string \<times> json) list"

definition is_ws :: "code_unit \<Rightarrow> bool" where
  "is_ws c \<longleftrightarrow> c = 0x20 \<or> c = 0x09 \<or> c = 0x0A \<or> c = 0x0D"

definition skip_ws :: "js_string \<Rightarrow> js_string" where
  "skip_ws = dropWhile is_ws"

definition is_digit :: "code_unit \<Rightarrow> bool" where
  "is_digit c \<longleftrightarrow> 0x30 \<le> c \<and> c \<le> 0x39"

definition hex_val :: "code_unit \<Rightarrow> nat option" where
  "hex_val c =
     (if 0x30 \<le> c \<and> c \<le> 0x39 then Some (unat c - 0x30)
      else if 0x41 \<le> c \<and> c \<le> 0x46 then Some (unat c - 0x41 + 10)
      else if 0x61 \<le> c \<and> c \<le> 0x66 then Some (unat c - 0x61 + 10)
      else None)"

definition hex4 :: "code_unit \<Rightarrow> code_unit \<Rightarrow> code_unit \<Rightarrow> code_unit \<Rightarrow> code_unit option" where
  "hex4 a b c d =
     (case (hex_val a, hex_val b, hex_val c, hex_val d) of
        (Some h3, Some h2, Some h1, Some h0) \<Rightarrow>
          Some (of_nat (((h3 * 16 + h2) * 16 + h1) * 16 + h0))
      | _ \<Rightarrow> None)"

text \<open>The character after a backslash: quote, backslash, slash, b, f, n, r, t.\<close>

definition simple_escape :: "code_unit \<Rightarrow> code_unit option" where
  "simple_escape e =
     (if e = QUOTE then Some QUOTE
      else if e = BACKSLASH then Some BACKSLASH
      else if e = 0x2F then Some 0x2F
      else if e = 0x62 then Some 0x08
      else if e = 0x66 then Some 0x0C
      else if e = 0x6E then Some 0x0A
      else if e = 0x72 then Some 0x0D
      else if e = 0x74 then Some 0x09
      else None)"

text \<open>
  The characters of a string literal after its opening quote, up to the closing quote:
  the text they denote and what follows the closing quote. A raw control character
  (below U+0020) and an unknown escape are syntax errors.
\<close>

fun parse_chars :: "js_string \<Rightarrow> (js_string \<times> js_string) option" where
  "parse_chars [] = None"
| "parse_chars (c # cs) =
     (if c = QUOTE then Some ([], cs)
      else if c = BACKSLASH then
        (case cs of
           [] \<Rightarrow> None
         | e # r \<Rightarrow>
             if e = 0x75 then
               (case r of
                  h3 # h2 # h1 # h0 # r' \<Rightarrow>
                    (case hex4 h3 h2 h1 h0 of
                       None \<Rightarrow> None
                     | Some u \<Rightarrow> map_option (apfst ((#) u)) (parse_chars r'))
                | _ \<Rightarrow> None)
             else
               (case simple_escape e of
                  None \<Rightarrow> None
                | Some x \<Rightarrow> map_option (apfst ((#) x)) (parse_chars r)))
      else if c < 0x20 then None
      else map_option (apfst ((#) c)) (parse_chars cs))"

text \<open>
  Numbers: an optional minus, an integer part (a single 0, or a nonzero digit and more
  digits), an optional fraction (a dot and at least one digit), an optional exponent
  (e or E, an optional sign, at least one digit).
\<close>

definition digits_val :: "js_string \<Rightarrow> int" where
  "digits_val ds = foldl (\<lambda>n d. 10 * n + (uint d - 0x30)) 0 ds"

definition parse_int_part :: "js_string \<Rightarrow> (js_string \<times> js_string) option" where
  "parse_int_part s =
     (case s of
        [] \<Rightarrow> None
      | c # r \<Rightarrow>
          if c = 0x30 then Some ([c], r)
          else if is_digit c then Some (takeWhile is_digit s, dropWhile is_digit s)
          else None)"

definition parse_frac_part :: "js_string \<Rightarrow> (js_string \<times> js_string) option" where
  "parse_frac_part s =
     (case s of
        [] \<Rightarrow> Some ([], s)
      | c # r \<Rightarrow>
          if c = DOT then
            (if takeWhile is_digit r = [] then None
             else Some (takeWhile is_digit r, dropWhile is_digit r))
          else Some ([], s))"

definition parse_exp_digits :: "bool \<Rightarrow> js_string \<Rightarrow> (int \<times> js_string) option" where
  "parse_exp_digits neg s =
     (if takeWhile is_digit s = [] then None
      else Some ((if neg then - digits_val (takeWhile is_digit s)
                  else digits_val (takeWhile is_digit s)),
                 dropWhile is_digit s))"

definition parse_exp_part :: "js_string \<Rightarrow> (int \<times> js_string) option" where
  "parse_exp_part s =
     (case s of
        [] \<Rightarrow> Some (0, s)
      | c # r \<Rightarrow>
          if c = 0x65 \<or> c = 0x45 then
            (case r of
               [] \<Rightarrow> None
             | sg # r' \<Rightarrow>
                 if sg = MINUS then parse_exp_digits True r'
                 else if sg = PLUS then parse_exp_digits False r'
                 else parse_exp_digits False r)
          else Some (0, s))"

definition parse_number :: "js_string \<Rightarrow> (json \<times> js_string) option" where
  "parse_number s =
     (let neg = (s \<noteq> [] \<and> hd s = MINUS);
          s1 = (if neg then tl s else s)
      in case parse_int_part s1 of
           None \<Rightarrow> None
         | Some (ip, s2) \<Rightarrow>
             (case parse_frac_part s2 of
                None \<Rightarrow> None
              | Some (fp, s3) \<Rightarrow>
                  (case parse_exp_part s3 of
                     None \<Rightarrow> None
                   | Some (ex, s4) \<Rightarrow>
                       Some (JNumber ((if neg then - 1 else 1) * digits_val (ip @ fp))
                                     (ex - int (length fp)), s4))))"

lemma parse_chars_shorter: "parse_chars s = Some (k, r) \<Longrightarrow> length r < length s"
  by (induction s arbitrary: k r rule: parse_chars.induct)
     (fastforce split: if_splits list.splits option.splits)+

lemma length_skip_ws: "length (skip_ws s) \<le> length s"
  by (simp add: skip_ws_def length_dropWhile_le)

lemma skip_ws_Cons: "skip_ws s = c # r \<Longrightarrow> length r < length s"
  using length_skip_ws [of s] by simp

text \<open>
  Values, the elements of an array after its opening bracket, and the members of an
  object after its opening brace. Each returns what it has read and the text left. The
  tests \<open>length r < length s\<close> make the recursion visibly terminating; they never fail
  (\<open>parse_elements_unguarded\<close> and \<open>parse_members_unguarded\<close> below).
\<close>

function parse_value :: "js_string \<Rightarrow> (json \<times> js_string) option"
  and parse_elements :: "js_string \<Rightarrow> (json list \<times> js_string) option"
  and parse_members :: "js_string \<Rightarrow> ((js_string \<times> json) list \<times> js_string) option"
where
  "parse_value s =
     (case s of
        [] \<Rightarrow> None
      | c # cs \<Rightarrow>
          if c = LBRACE then
            (case skip_ws cs of
               [] \<Rightarrow> None
             | d # ds \<Rightarrow>
                 if d = RBRACE then Some (JObject [], ds)
                 else map_option (apfst JObject) (parse_members (d # ds)))
          else if c = LBRACKET then
            (case skip_ws cs of
               [] \<Rightarrow> None
             | d # ds \<Rightarrow>
                 if d = RBRACKET then Some (JArray [], ds)
                 else map_option (apfst JArray) (parse_elements (d # ds)))
          else if c = QUOTE then map_option (apfst JString) (parse_chars cs)
          else if take 4 s = js ''true'' then Some (JBool True, drop 4 s)
          else if take 5 s = js ''false'' then Some (JBool False, drop 5 s)
          else if take 4 s = js ''null'' then Some (JNull, drop 4 s)
          else parse_number s)"
| "parse_elements s =
     (case parse_value (skip_ws s) of
        None \<Rightarrow> None
      | Some (v, r) \<Rightarrow>
          if length r < length s then
            (case skip_ws r of
               [] \<Rightarrow> None
             | c # r' \<Rightarrow>
                 if c = COMMA then map_option (apfst ((#) v)) (parse_elements r')
                 else if c = RBRACKET then Some ([v], r')
                 else None)
          else None)"
| "parse_members s =
     (case skip_ws s of
        [] \<Rightarrow> None
      | q # s1 \<Rightarrow>
          if q = QUOTE then
            (case parse_chars s1 of
               None \<Rightarrow> None
             | Some (k, s2) \<Rightarrow>
                 (case skip_ws s2 of
                    [] \<Rightarrow> None
                  | c # s3 \<Rightarrow>
                      if c = COLON then
                        (case parse_value (skip_ws s3) of
                           None \<Rightarrow> None
                         | Some (v, r) \<Rightarrow>
                             if length r < length s then
                               (case skip_ws r of
                                  [] \<Rightarrow> None
                                | c' # r' \<Rightarrow>
                                    if c' = COMMA then
                                      map_option (apfst ((#) (k, v))) (parse_members r')
                                    else if c' = RBRACE then Some ([(k, v)], r')
                                    else None)
                             else None)
                      else None))
          else None)"
  by pat_completeness auto
termination
proof (relation "measure (\<lambda>x. case x of Inl s \<Rightarrow> 2 * length s
                                       | Inr (Inl s) \<Rightarrow> 2 * length s + 1
                                       | Inr (Inr s) \<Rightarrow> 2 * length s + 1)",
       goal_cases)
  case 1
  show ?case by simp
next
  case (2 s c cs d ds)
  then show ?case using skip_ws_Cons [of cs d ds] by simp
next
  case (3 s c cs d ds)
  then show ?case using skip_ws_Cons [of cs d ds] by simp
next
  case (4 s)
  show ?case using length_skip_ws [of s] by simp
next
  case (5 s x v r c r')
  then show ?case using skip_ws_Cons [of r c r'] by simp
next
  case (6 s q s1 x k s2 c s3)
  then show ?case
    using skip_ws_Cons [of s q s1] parse_chars_shorter [of s1 k s2] skip_ws_Cons [of s2 c s3]
      length_skip_ws [of s3]
    by simp
next
  case (7 s q s1 x k s2 c s3 y v r c' r')
  then show ?case using skip_ws_Cons [of r c' r'] by simp
qed

declare parse_value.simps [simp del] parse_elements.simps [simp del]
  parse_members.simps [simp del]

text \<open>
  \<^verbatim>\<open>JSON.parse(text)\<close>: one value, with white space allowed around it and nothing
  else. \<open>None\<close> is the SyntaxError it throws.
\<close>

definition JSON_parse :: "js_string \<Rightarrow> json option" where
  "JSON_parse text =
     (case parse_value (skip_ws text) of
        None \<Rightarrow> None
      | Some (v, r) \<Rightarrow> if skip_ws r = [] then Some v else None)"

section \<open>What JavaScript does with a parsed value\<close>

text \<open>
  \<^verbatim>\<open>JSON.parse\<close> returns a value of any shape; the annotation \<^verbatim>\<open>CommitResult\<close>
  (\<^verbatim>\<open>commit_message?: string; success: boolean; error?: string\<close>) is not checked when
  the program runs. The value therefore stays a \<open>json\<close>, and the reads, tests and
  conversions that the source applies to it are written out. \<open>None\<close> of type
  \<open>json option\<close> is \<^verbatim>\<open>undefined\<close>.
\<close>

text \<open>
  A number is falsy when it is zero as a double: the decimal \<open>m * 10 ^ e\<close> is rounded
  to the nearest double, and what is at most \<open>2 ^ - 1075\<close> in magnitude (half the
  smallest positive double) rounds to zero.
\<close>

definition number_is_zero :: "int \<Rightarrow> int \<Rightarrow> bool" where
  "number_is_zero m e =
     (if 0 \<le> e then m = 0 else \<bar>m\<bar> * 2 ^ 1075 \<le> 10 ^ nat (- e))"

fun truthy :: "json \<Rightarrow> bool" where
  "truthy JNull = False"
| "truthy (JBool b) = b"
| "truthy (JNumber m e) = (\<not> number_is_zero m e)"
| "truthy (JString s) = (s \<noteq> [])"
| "truthy (JArray xs) = True"
| "truthy (JObject ms) = True"

fun truthy_opt :: "json option \<Rightarrow> bool" where
  "truthy_opt None = False"
| "truthy_opt (Some v) = truthy v"

text \<open>The errors that the engine itself throws while the source handles the value.\<close>

datatype type_error =
    Read_property_of_null js_string
  | Not_a_function js_string
  | Cannot_convert_to_primitive

datatype thrown = Error js_string | TypeError type_error

text \<open>
  \<^verbatim>\<open>result.name\<close> on a value other than \<^verbatim>\<open>null\<close>, for the three names the source
  reads (\<^verbatim>\<open>success\<close>, \<^verbatim>\<open>commit_message\<close>, \<^verbatim>\<open>error\<close>): an own member of an object,
  looked up at its last occurrence; \<^verbatim>\<open>undefined\<close> on an object without it and on a
  string, number, boolean or array, whose prototypes define none of the three. On
  \<^verbatim>\<open>null\<close> the read throws; \<open>route_result\<close> below has that case before any read.
\<close>

fun property :: "json \<Rightarrow> js_string \<Rightarrow> json option" where
  "property (JObject ms) name = map_of (rev ms) name"
| "property v name = None"

text \<open>
  What the embedding takes from the host (Node and its JavaScript engine):
  \<^verbatim>\<open>path.join\<close>, whose result depends on the platform; \<^verbatim>\<open>toString\<close> on a number read
  from the settings or from JSON, which prints the double nearest to \<open>m * 10 ^ e\<close>; and
  the message texts of the TypeErrors the engine throws.
\<close>

record host =
  path_join :: "js_string list \<Rightarrow> js_string"
  Number_toString :: "int \<Rightarrow> int \<Rightarrow> js_string"
  TypeError_message :: "type_error \<Rightarrow> js_string"

text \<open>
  The conversion to text inside a template literal \<^verbatim>\<open>`${v}`\<close>. An array is its
  elements joined by commas, \<^verbatim>\<open>null\<close> elements being empty; an object is
  \<^verbatim>\<open>[object Object]\<close>, unless it has a member \<^verbatim>\<open>toString\<close> of its own, which hides
  the inherited method, is not callable, and leaves no way to a primitive value.
\<close>

fun ToString :: "host \<Rightarrow> json \<Rightarrow> type_error + js_string"
  and join_elements :: "host \<Rightarrow> json list \<Rightarrow> type_error + js_string"
where
  "ToString h JNull = Inr (js ''null'')"
| "ToString h (JBool b) = Inr (if b then js ''true'' else js ''false'')"
| "ToString h (JNumber m e) = Inr (Number_toString h m e)"
| "ToString h (JString s) = Inr s"
| "ToString h (JArray xs) = join_elements h xs"
| "ToString h (JObject ms) =
     (if js ''toString'' \<in> fst ` set ms then Inl Cannot_convert_to_primitive
      else Inr (js ''[object Object]''))"
| "join_elements h [] = Inr []"
| "join_elements h (x # xs) =
     (case (if x = JNull then Inr [] else ToString h x) of
        Inl err \<Rightarrow> Inl err
      | Inr t \<Rightarrow>
          if xs = [] then Inr t
          else (case join_elements h xs of
                  Inl err \<Rightarrow> Inl err
                | Inr ts \<Rightarrow> Inr (t @ COMMA # ts)))"

text \<open>
  \<^verbatim>\<open>errorMessage.includes('No changes detected')\<close>: the substring test on a string,
  the membership test on an array; any other value has no callable \<^verbatim>\<open>includes\<close>.
\<close>

fun includes_call :: "json \<Rightarrow> js_string \<Rightarrow> type_error + bool" where
  "includes_call (JString s) t = Inr (String_includes s t)"
| "includes_call (JArray xs) t = Inr (JString t \<in> set xs)"
| "includes_call v t = Inl (Not_a_function (js ''errorMessage.includes''))"

section \<open>The run of the external process: \<^verbatim>\<open>runPythonScript\<close>\<close>

text \<open>
  The calls that leave the extension, in the order they are made. The editor's calls are
  taken to return normally.
\<close>

datatype effect =
    ShowErrorMessage js_string "js_string list"
  | ShowWarningMessage js_string
  | ShowInformationMessage js_string
  | ExecuteCommand js_string js_string
  | WithProgress js_string
  | ProgressReport nat js_string
  | Spawn js_string "js_string list"
  | ProcessKill
  | JSONParse js_string
  | SetInputBoxValue json
  | ClipboardWriteText json
  | ConsoleError js_string thrown

text \<open>
  What happens while the promise is pending, one event per listener of the source: a
  chunk on the standard output or the standard error (already as text, as
  \<^verbatim>\<open>data.toString()\<close> gives it), the \<^verbatim>\<open>close\<close> of the process with its exit code
  (\<open>None\<close> is \<^verbatim>\<open>null\<close>, a process ended by a signal), the \<^verbatim>\<open>error\<close> of a process
  that could not be started, and the cancellation of the token.
\<close>

datatype proc_event =
    Stdout_data js_string
  | Stderr_data js_string
  | Close "int option"
  | Spawn_error js_string
  | Cancellation

text \<open>The promise is settled once: resolved with the parsed value or rejected with an Error.\<close>

datatype outcome = Resolved json | Rejected js_string

record run_state =
  stdout :: js_string
  stderr :: js_string
  settled :: "outcome option"
  isCancellationRequested :: bool
  trace :: "effect list"

text \<open>\<^verbatim>\<open>resolve\<close> and \<^verbatim>\<open>reject\<close> have no effect on a promise that is already settled.\<close>

definition settle :: "outcome \<Rightarrow> run_state \<Rightarrow> run_state" where
  "settle out st = (if settled st = None then st\<lparr>settled := Some out\<rparr> else st)"

definition emit :: "effect \<Rightarrow> run_state \<Rightarrow> run_state" where
  "emit e st = st\<lparr>trace := trace st @ [e]\<rparr>"

definition on_cancellation :: "run_state \<Rightarrow> run_state" where
  "on_cancellation st =
     settle (Rejected (js ''Operation was cancelled''))
       (emit ProcessKill (st\<lparr>isCancellationRequested := True\<rparr>))"

definition on_stdout_data :: "js_string \<Rightarrow> run_state \<Rightarrow> run_state" where
  "on_stdout_data d st = st\<lparr>stdout := stdout st @ d\<rparr>"

definition on_stderr_data :: "js_string \<Rightarrow> run_state \<Rightarrow> run_state" where
  "on_stderr_data d st = st\<lparr>stderr := stderr st @ d\<rparr>"

definition code_text :: "int option \<Rightarrow> js_string" where
  "code_text code = (case code of None \<Rightarrow> js ''null'' | Some i \<Rightarrow> int_toString i)"

definition jsonPart :: "js_string \<Rightarrow> js_string" where
  "jsonPart out = substring out (lastIndexOf out LBRACE)"

definition on_close :: "int option \<Rightarrow> run_state \<Rightarrow> run_state" where
  "on_close code st =
     (if code = Some 0 then
        (case JSON_parse (jsonPart (stdout st)) of
           Some result \<Rightarrow> settle (Resolved result) (emit (JSONParse (jsonPart (stdout st))) st)
         | None \<Rightarrow>
             settle (Rejected (js ''Failed to parse Python script output: '' @ stdout st))
               (emit (JSONParse (jsonPart (stdout st))) st))
      else
        settle (Rejected (js ''Python script failed with code '' @ code_text code
                           @ js '': '' @ stderr st)) st)"

definition on_error :: "js_string \<Rightarrow> run_state \<Rightarrow> run_state" where
  "on_error message st = settle (Rejected (js ''Failed to start Python script: '' @ message)) st"

fun handle :: "proc_event \<Rightarrow> run_state \<Rightarrow> run_state" where
  "handle (Stdout_data d) st = on_stdout_data d st"
| "handle (Stderr_data d) st = on_stderr_data d st"
| "handle (Close code) st = on_close code st"
| "handle (Spawn_error message) st = on_error message st"
| "handle Cancellation st = on_cancellation st"

text \<open>
  The events are handled in order until one settles the promise; the code after
  \<^verbatim>\<open>await\<close> then runs with the state of that moment, and later events cannot change
  what it has seen. A list that ends before any event settles the promise is a process
  that never finishes: the promise stays pending.
\<close>

fun run_events :: "run_state \<Rightarrow> proc_event list \<Rightarrow> run_state" where
  "run_events st [] = st"
| "run_events st (ev # evs) =
     (if settled (handle ev st) = None then run_events (handle ev st) evs
      else handle ev st)"

definition runPythonScript :: "js_string \<Rightarrow> js_string list \<Rightarrow> proc_event list \<Rightarrow> run_state" where
  "runPythonScript pythonPath args evs =
     run_events \<lparr>stdout = [], stderr = [], settled = None, isCancellationRequested = False,
                 trace = [Spawn pythonPath args]\<rparr> evs"

section \<open>The command: \<^verbatim>\<open>generateCommitMessage\<close>\<close>

text \<open>
  The settings under \<^verbatim>\<open>autoCommitMessages\<close>, with the types the source reads them
  at; \<open>None\<close> is \<^verbatim>\<open>undefined\<close>. A number is the decimal \<open>(m, e)\<close>, standing for
  \<open>m * 10 ^ e\<close>.
\<close>

record settings =
  googleApiKey :: "js_string option"
  pythonPath :: "js_string option"
  model :: "js_string option"
  temperature :: "(int \<times> int) option"
  maxTokens :: "(int \<times> int) option"

text \<open>
  What one invocation finds: the path of the first workspace folder, the extension's own
  path, the settings, whether the user answers the missing-key notice with its \<^verbatim>\<open>Open
  Settings\<close> button, the number of repositories of the git extension (\<open>None\<close> when the
  extension or its interface is absent; \<^verbatim>\<open>getAPI\<close>, like every call into the editor,
  is taken to return normally), and the events of the process once spawned.
\<close>

record world =
  workspaceFolder :: "js_string option"
  extensionPath :: js_string
  config :: settings
  open_settings_chosen :: bool
  git_repositories :: "nat option"
  events :: "proc_event list"

text \<open>\<^verbatim>\<open>config.get<string>(name) || fallback\<close>: the fallback replaces undefined and the empty string.\<close>

definition string_or :: "js_string option \<Rightarrow> js_string \<Rightarrow> js_string" where
  "string_or v fallback = (case v of None \<Rightarrow> fallback | Some s \<Rightarrow> if s = [] then fallback else s)"

text \<open>
  \<^verbatim>\<open>(config.get<number>(name) || fallback).toString()\<close>: the fallback replaces undefined
  and zero. The two fallbacks of the source are 0.3 and 100, whose texts are \<^verbatim>\<open>0.3\<close>
  and \<^verbatim>\<open>100\<close>; the second argument is that text.
\<close>

definition number_or_toString :: "host \<Rightarrow> (int \<times> int) option \<Rightarrow> js_string \<Rightarrow> js_string" where
  "number_or_toString h v fallback_text =
     (case v of
        None \<Rightarrow> fallback_text
      | Some (m, e) \<Rightarrow> if number_is_zero m e then fallback_text else Number_toString h m e)"

definition spawn_args :: "host \<Rightarrow> world \<Rightarrow> js_string \<Rightarrow> js_string \<Rightarrow> js_string list" where
  "spawn_args h w folder apiKey =
     [path_join h [extensionPath w, js ''py'', js ''commit_generator.py''],
      folder,
      js ''--api-key'', apiKey,
      js ''--model'', string_or (model (config w)) (js ''gemini-1.5-flash''),
      js ''--temperature'', number_or_toString h (temperature (config w)) (js ''0.3''),
      js ''--max-tokens'', number_or_toString h (maxTokens (config w)) (js ''100''),
      js ''--json'']"

text \<open>The handler of the outer \<^verbatim>\<open>catch\<close>; every value thrown here is an Error.\<close>

fun message_of :: "host \<Rightarrow> thrown \<Rightarrow> js_string" where
  "message_of h (Error m) = m"
| "message_of h (TypeError err) = TypeError_message h err"

definition catch_handler :: "host \<Rightarrow> thrown \<Rightarrow> effect list" where
  "catch_handler h err =
     [ConsoleError (js ''Error in generateCommitMessage:'') err,
      ShowErrorMessage (js ''Failed to generate commit message: '' @ message_of h err) []]"

text \<open>
  A block of the source that may throw: the calls it has made, and the value thrown if it
  did not run to its end.
\<close>

type_synonym block = "effect list \<times> thrown option"

text \<open>
  The branch taken when \<^verbatim>\<open>result.success && result.commit_message\<close> is truthy; its
  argument is \<^verbatim>\<open>result.commit_message\<close>.
\<close>

definition on_success :: "host \<Rightarrow> nat option \<Rightarrow> json \<Rightarrow> block" where
  "on_success h repos message =
     (if (case repos of None \<Rightarrow> False | Some n \<Rightarrow> 0 < n) then
        (case ToString h message of
           Inl err \<Rightarrow> ([SetInputBoxValue message], Some (TypeError err))
         | Inr text \<Rightarrow>
             ([SetInputBoxValue message,
               ShowInformationMessage (js ''Generated: \"'' @ text @ js ''\"'')], None))
      else
        (case ToString h message of
           Inl err \<Rightarrow> ([ClipboardWriteText message], Some (TypeError err))
         | Inr text \<Rightarrow>
             ([ClipboardWriteText message,
               ShowInformationMessage
                 (js ''Generated (copied to clipboard): \"'' @ text @ js ''\"'')], None)))"

text \<open>The other branch; its argument is \<^verbatim>\<open>result.error\<close>.\<close>

definition error_or_default :: "json option \<Rightarrow> json" where
  "error_or_default err =
     (case err of
        None \<Rightarrow> JString (js ''Failed to generate commit message'')
      | Some v \<Rightarrow> if truthy v then v else JString (js ''Failed to generate commit message''))"

definition on_failure :: "host \<Rightarrow> json option \<Rightarrow> block" where
  "on_failure h err =
     (case includes_call (error_or_default err) (js ''No changes detected'') of
        Inl e \<Rightarrow> ([], Some (TypeError e))
      | Inr found \<Rightarrow>
          if found then
            ([ShowWarningMessage (js ''No changes detected to generate commit message.'')], None)
          else
            (case ToString h (error_or_default err) of
               Inl e \<Rightarrow> ([], Some (TypeError e))
             | Inr text \<Rightarrow> ([ShowErrorMessage (js ''Error: '' @ text) []], None)))"

text \<open>The \<^verbatim>\<open>if\<close> on the result, lines 157 to 182 of the source.\<close>

definition route_result :: "host \<Rightarrow> world \<Rightarrow> json \<Rightarrow> block" where
  "route_result h w result =
     (if result = JNull then ([], Some (TypeError (Read_property_of_null (js ''success''))))
      else if truthy_opt (property result (js ''success''))
        then (case property result (js ''commit_message'') of
                None \<Rightarrow> on_failure h (property result (js ''error''))
              | Some message \<Rightarrow>
                  if truthy message then
                    (case on_success h (git_repositories w) message of
                       (fx, t) \<Rightarrow> (ProgressReport 20 (js ''Applying commit message...'') # fx, t))
                  else on_failure h (property result (js ''error'')))
      else on_failure h (property result (js ''error'')))"

text \<open>
  What follows \<^verbatim>\<open>await runPythonScript(...)\<close> once the promise is resolved; the flag
  is \<^verbatim>\<open>token.isCancellationRequested\<close> at that moment.
\<close>

definition after_run :: "host \<Rightarrow> world \<Rightarrow> bool \<Rightarrow> json \<Rightarrow> block" where
  "after_run h w cancelled result =
     (if cancelled then ([], None)
      else (case route_result h w result of
              (fx, t) \<Rightarrow> (ProgressReport 60 (js ''Processing AI response...'') # fx, t)))"

text \<open>The callback given to \<^verbatim>\<open>withProgress\<close>.\<close>

definition progress_task :: "host \<Rightarrow> world \<Rightarrow> js_string \<Rightarrow> js_string \<Rightarrow> block" where
  "progress_task h w folder apiKey =
     (let run = runPythonScript (string_or (pythonPath (config w)) (js ''python''))
                  (spawn_args h w folder apiKey) (events w);
          before = ProgressReport 20 (js ''Analyzing git changes...'') # trace run
      in case settled run of
           None \<Rightarrow> (before, None)
         | Some (Rejected message) \<Rightarrow> (before, Some (Error message))
         | Some (Resolved result) \<Rightarrow>
             (case after_run h w (isCancellationRequested run) result of
                (fx, t) \<Rightarrow> (before @ fx, t)))"

text \<open>The notice of lines 118 to 127, with the command its button runs.\<close>

definition missing_key_notice :: "world \<Rightarrow> effect list" where
  "missing_key_notice w =
     ShowErrorMessage (js ''Google AI API Key is not configured. Please set it in settings.'')
       [js ''Open Settings'']
     # (if open_settings_chosen w
        then [ExecuteCommand (js ''workbench.action.openSettings'')
                (js ''autoCommitMessages.googleApiKey'')]
        else [])"

text \<open>
  The whole command: the calls it makes, in order. A rejection or a throw inside the
  callback of \<^verbatim>\<open>withProgress\<close> reaches the \<^verbatim>\<open>catch\<close> of the command.
\<close>

definition generateCommitMessage :: "host \<Rightarrow> world \<Rightarrow> effect list" where
  "generateCommitMessage h w =
     (case workspaceFolder w of
        None \<Rightarrow> [ShowErrorMessage (js ''No workspace folder found. Please open a project.'') []]
      | Some folder \<Rightarrow>
          (case googleApiKey (config w) of
             None \<Rightarrow> missing_key_notice w
           | Some apiKey \<Rightarrow>
               if apiKey = [] then missing_key_notice w
               else
                 (case progress_task h w folder apiKey of
                    (fx, t) \<Rightarrow>
                      WithProgress (js ''Generating commit message with AI...'') # fx
                      @ (case t of None \<Rightarrow> [] | Some err \<Rightarrow> catch_handler h err))))"

section \<open>Vocabulary of the statements\<close>

text \<open>
  A data event is a chunk on one of the two streams. The captured output of a list of
  events is its chunks of one stream, in order, as the listeners append them.
\<close>

fun is_data :: "proc_event \<Rightarrow> bool" where
  "is_data (Stdout_data d) = True"
| "is_data (Stderr_data d) = True"
| "is_data ev = False"

fun stdout_text :: "proc_event list \<Rightarrow> js_string" where
  "stdout_text [] = []"
| "stdout_text (Stdout_data d # evs) = d @ stdout_text evs"
| "stdout_text (ev # evs) = stdout_text evs"

fun stderr_text :: "proc_event list \<Rightarrow> js_string" where
  "stderr_text [] = []"
| "stderr_text (Stderr_data d # evs) = d @ stderr_text evs"
| "stderr_text (ev # evs) = stderr_text evs"

text \<open>
  The state of a run that has so far seen the data events \<open>evs\<close> only: both streams
  captured in full, the promise pending, the launch the only call made.
\<close>

definition captured :: "js_string \<Rightarrow> js_string list \<Rightarrow> proc_event list \<Rightarrow> run_state" where
  "captured p a evs =
     \<lparr>stdout = stdout_text evs, stderr = stderr_text evs, settled = None,
      isCancellationRequested = False, trace = [Spawn p a]\<rparr>"

text \<open>
  The integer that a text denotes as a decimal numeral: digits, with an optional minus
  sign before them. \<open>None\<close> for any other text.
\<close>

definition decimal_value :: "js_string \<Rightarrow> int option" where
  "decimal_value t =
     (case t of
        [] \<Rightarrow> None
      | c # r \<Rightarrow>
          if c = MINUS then
            (if r \<noteq> [] \<and> list_all is_digit r then Some (- digits_val r) else None)
          else if list_all is_digit t then Some (digits_val t)
          else None)"

text \<open>The processes a list of calls has launched: command and arguments of each.\<close>

fun spawned :: "effect list \<Rightarrow> (js_string \<times> js_string list) list" where
  "spawned [] = []"
| "spawned (Spawn p a # fx) = (p, a) # spawned fx"
| "spawned (e # fx) = spawned fx"

text \<open>
  The calls of the success branch among a list of calls: writing the input box, writing
  the clipboard, and the information notice.
\<close>

fun success_effects :: "effect list \<Rightarrow> effect list" where
  "success_effects [] = []"
| "success_effects (SetInputBoxValue v # fx) = SetInputBoxValue v # success_effects fx"
| "success_effects (ClipboardWriteText v # fx) = ClipboardWriteText v # success_effects fx"
| "success_effects (ShowInformationMessage m # fx) = ShowInformationMessage m # success_effects fx"
| "success_effects (e # fx) = success_effects fx"

text \<open>A setting is falsy when it is undefined, the empty string, or the number zero.\<close>

definition falsy_string :: "js_string option \<Rightarrow> bool" where
  "falsy_string v = (case v of None \<Rightarrow> True | Some s \<Rightarrow> s = [])"

definition falsy_number :: "(int \<times> int) option \<Rightarrow> bool" where
  "falsy_number v = (case v of None \<Rightarrow> True | Some (m, e) \<Rightarrow> number_is_zero m e)"

text \<open>
  The calls of every invocation that gets as far as the process: the progress notice,
  its first report, and the launch.
\<close>

definition started :: "host \<Rightarrow> world \<Rightarrow> js_string \<Rightarrow> js_string \<Rightarrow> effect list" where
  "started h w folder apiKey =
     [WithProgress (js ''Generating commit message with AI...''),
      ProgressReport 20 (js ''Analyzing git changes...''),
      Spawn (string_or (pythonPath (config w)) (js ''python'')) (spawn_args h w folder apiKey)]"

section \<open>A host and a world for the examples\<close>

text \<open>
  The host of the examples joins path segments with a slash, as \<^verbatim>\<open>path.join\<close> does on
  POSIX for segments that need no normalisation; writes a number \<open>m * 10 ^ e\<close> with
  \<open>0 \<le> e\<close> as the integer it is, which is what the engine prints below \<open>10 ^ 21\<close>, and
  any other number as mantissa and exponent (no example has one); and has the message
  texts of V8.
\<close>

fun posix_join :: "js_string list \<Rightarrow> js_string" where
  "posix_join [] = js ''.''"
| "posix_join [p] = p"
| "posix_join (p # q # ps) = p @ 0x2F # posix_join (q # ps)"

fun v8_message :: "type_error \<Rightarrow> js_string" where
  "v8_message (Read_property_of_null name) =
     js ''Cannot read properties of null (reading '' @ 0x27 # name @ 0x27 # js '')''"
| "v8_message (Not_a_function callee) = callee @ js '' is not a function''"
| "v8_message Cannot_convert_to_primitive = js ''Cannot convert object to primitive value''"

definition example_host :: host where
  "example_host =
     \<lparr>path_join = posix_join,
      Number_toString = (\<lambda>m e. if 0 \<le> e then int_toString (m * 10 ^ nat e)
                                else int_toString m @ js ''e'' @ int_toString e),
      TypeError_message = v8_message\<rparr>"

text \<open>
  A workspace with a folder, an API key, every other setting left unset, one repository
  in the git extension, and the given events of the process.
\<close>

definition example_world :: "proc_event list \<Rightarrow> world" where
  "example_world evs =
     \<lparr>workspaceFolder = Some (js ''/home/dev/project''),
      extensionPath = js ''/home/dev/.vscode/extensions/auto-commit'',
      config = \<lparr>googleApiKey = Some (js ''KEY''), pythonPath = None, model = None,
                 temperature = None, maxTokens = None\<rparr>,
      open_settings_chosen = False,
      git_repositories = Some 1,
      events = evs\<rparr>"

text \<open>The same workspace with an empty API key.\<close>

definition keyless_world :: world where
  "keyless_world =
     \<lparr>workspaceFolder = Some (js ''/home/dev/project''),
      extensionPath = js ''/home/dev/.vscode/extensions/auto-commit'',
      config = \<lparr>googleApiKey = Some [], pythonPath = None, model = None,
                 temperature = None, maxTokens = None\<rparr>,
      open_settings_chosen = False,
      git_repositories = Some 1,
      events = [Close (Some 0)]\<rparr>"

text \<open>A workspace with every setting but the temperature configured, and no git extension.\<close>

definition configured_world :: world where
  "configured_world =
     \<lparr>workspaceFolder = Some (js ''/home/dev/project''),
      extensionPath = js ''/home/dev/.vscode/extensions/auto-commit'',
      config = \<lparr>googleApiKey = Some (js ''KEY''), pythonPath = Some (js ''/usr/bin/python3''),
                 model = Some (js ''gemini-1.5-pro''), temperature = None,
                 maxTokens = Some (200, 0)\<rparr>,
      open_settings_chosen = False,
      git_repositories = None,
      events = []\<rparr>"

text \<open>A workspace whose settings other than the key are all falsy.\<close>

definition zeroed_world :: world where
  "zeroed_world =
     \<lparr>workspaceFolder = Some (js ''/home/dev/project''),
      extensionPath = js ''/home/dev/.vscode/extensions/auto-commit'',
      config = \<lparr>googleApiKey = Some (js ''KEY''), pythonPath = Some [],
                 model = Some [], temperature = Some (0, 0), maxTokens = Some (0, 0)\<rparr>,
      open_settings_chosen = False,
      git_repositories = None,
      events = []\<rparr>"

section \<open>Properties of the parser\<close>

text \<open>Every parser consumes text, so the length tests in its definition always hold.\<close>

lemma parse_int_part_shorter:
  "parse_int_part s = Some (ip, r) \<Longrightarrow> length r < length s"
  by (cases s) (auto simp: parse_int_part_def is_digit_def length_dropWhile_le less_Suc_eq_le
      split: if_splits)

lemma parse_frac_part_shorter:
  "parse_frac_part s = Some (fp, r) \<Longrightarrow> length r \<le> length s"
  by (cases s) (auto simp: parse_frac_part_def length_dropWhile_le le_SucI split: if_splits)

lemma parse_exp_digits_shorter:
  "parse_exp_digits neg s = Some (x, r) \<Longrightarrow> length r \<le> length s"
  by (auto simp: parse_exp_digits_def length_dropWhile_le split: if_splits)

lemma parse_exp_part_shorter:
  "parse_exp_part s = Some (x, r) \<Longrightarrow> length r \<le> length s"
  by (cases s)
     (auto simp: parse_exp_part_def le_SucI split: if_splits list.splits
        dest!: parse_exp_digits_shorter)

lemma parse_number_shorter:
  "parse_number s = Some (v, r) \<Longrightarrow> length r < length s"
  by (cases s)
     (auto simp: parse_number_def Let_def split: if_splits option.splits
        dest!: parse_int_part_shorter parse_frac_part_shorter parse_exp_part_shorter)

lemma parse_value_shorter:
  "(\<forall>v r. parse_value s = Some (v, r) \<longrightarrow> length r < length s)"
  "(\<forall>vs r. parse_elements s1 = Some (vs, r) \<longrightarrow> length r < length s1)"
  "(\<forall>ms r. parse_members s2 = Some (ms, r) \<longrightarrow> length r < length s2)"
proof (induction s and s1 and s2 rule: parse_value_parse_elements_parse_members.induct)
  case (1 s)
  show ?case
  proof (intro allI impI)
    fix v r assume p: "parse_value s = Some (v, r)"
    show "length r < length s"
    proof (cases s)
      case Nil
      with p show ?thesis by (simp add: parse_value.simps)
    next
      case (Cons c cs)
      with p 1 show ?thesis
        apply (auto simp: parse_value.simps [of "c # cs"]
            split: if_splits list.splits
            dest!: parse_chars_shorter parse_number_shorter dest: skip_ws_Cons)
        subgoal for d ds a using skip_ws_Cons [of cs d ds] by force
        subgoal for d ds a using skip_ws_Cons [of cs d ds] by force
        done
    qed
  qed
next
  case (2 s)
  show ?case
  proof (intro allI impI)
    fix vs r assume p: "parse_elements s = Some (vs, r)"
    from p obtain v r0 where v: "parse_value (skip_ws s) = Some (v, r0)"
      by (auto simp: parse_elements.simps [of s] split: option.splits)
    from p v have g: "length r0 < length s"
      by (auto simp: parse_elements.simps [of s] split: if_splits)
    from p v g obtain c r' where c: "skip_ws r0 = c # r'"
      by (auto simp: parse_elements.simps [of s] split: list.splits)
    have l: "length r' < length r0" using skip_ws_Cons [OF c] .
    show "length r < length s"
    proof (cases "c = COMMA")
      case True
      with p v g c obtain vs' where "parse_elements r' = Some (vs', r)"
        by (auto simp: parse_elements.simps [of s])
      with "2.IH"(2) [OF v refl g c True] have "length r < length r'" by simp
      with l g show ?thesis by simp
    next
      case False
      with p v g c have "r = r'"
        by (auto simp: parse_elements.simps [of s] split: if_splits)
      with l g show ?thesis by simp
    qed
  qed
next
  case (3 s)
  show ?case
  proof (intro allI impI)
    fix ms r assume p: "parse_members s = Some (ms, r)"
    from p obtain q s1 where q: "skip_ws s = q # s1"
      by (auto simp: parse_members.simps [of s] split: list.splits)
    from p q have qq: "q = QUOTE"
      by (auto simp: parse_members.simps [of s] split: if_splits)
    from p q qq obtain k s2 where k: "parse_chars s1 = Some (k, s2)"
      by (auto simp: parse_members.simps [of s] split: option.splits)
    from p q qq k obtain c s3 where c: "skip_ws s2 = c # s3"
      by (auto simp: parse_members.simps [of s] split: list.splits)
    from p q qq k c have cc: "c = COLON"
      by (auto simp: parse_members.simps [of s] split: if_splits)
    from p q qq k c cc obtain v r0 where v: "parse_value (skip_ws s3) = Some (v, r0)"
      by (auto simp: parse_members.simps [of s] split: option.splits)
    from p q qq k c cc v have g: "length r0 < length s"
      by (auto simp: parse_members.simps [of s] split: if_splits)
    from p q qq k c cc v g obtain c' r' where c': "skip_ws r0 = c' # r'"
      by (auto simp: parse_members.simps [of s] split: list.splits)
    have l: "length r' < length r0" using skip_ws_Cons [OF c'] .
    show "length r < length s"
    proof (cases "c' = COMMA")
      case True
      with p q qq k c cc v g c' obtain ms' where "parse_members r' = Some (ms', r)"
        by (auto simp: parse_members.simps [of s])
      with "3.IH"(2) [OF q qq k refl c cc v refl g c' True] have "length r < length r'" by simp
      with l g show ?thesis by simp
    next
      case False
      with p q qq k c cc v g c' have "r = r'"
        by (auto simp: parse_members.simps [of s] split: if_splits)
      with l g show ?thesis by simp
    qed
  qed
qed

text \<open>The two equations with a length test hold without it as well.\<close>

lemma parse_elements_unguarded:
  "parse_elements s =
     (case parse_value (skip_ws s) of
        None \<Rightarrow> None
      | Some (v, r) \<Rightarrow>
          (case skip_ws r of
             [] \<Rightarrow> None
           | c # r' \<Rightarrow>
               if c = COMMA then map_option (apfst ((#) v)) (parse_elements r')
               else if c = RBRACKET then Some ([v], r')
               else None))"
proof (cases "parse_value (skip_ws s)")
  case None
  then show ?thesis by (simp add: parse_elements.simps [of s])
next
  case (Some p)
  obtain v r where p: "p = (v, r)" by (cases p)
  have "length r < length s"
    using parse_value_shorter(1) [of "skip_ws s"] length_skip_ws [of s] Some p by force
  with Some p show ?thesis by (simp add: parse_elements.simps [of s])
qed

lemma parse_members_unguarded:
  "parse_members s =
     (case skip_ws s of
        [] \<Rightarrow> None
      | q # s1 \<Rightarrow>
          if q = QUOTE then
            (case parse_chars s1 of
               None \<Rightarrow> None
             | Some (k, s2) \<Rightarrow>
                 (case skip_ws s2 of
                    [] \<Rightarrow> None
                  | c # s3 \<Rightarrow>
                      if c = COLON then
                        (case parse_value (skip_ws s3) of
                           None \<Rightarrow> None
                         | Some (v, r) \<Rightarrow>
                             (case skip_ws r of
                                [] \<Rightarrow> None
                              | c' # r' \<Rightarrow>
                                  if c' = COMMA then
                                    map_option (apfst ((#) (k, v))) (parse_members r')
                                  else if c' = RBRACE then Some ([(k, v)], r')
                                  else None))
                      else None))
          else None)"
proof -
  have g: "length r < length s"
    if "skip_ws s = q # s1" "parse_chars s1 = Some (k, s2)" "skip_ws s2 = c # s3"
      "parse_value (skip_ws s3) = Some (v, r)" for q s1 k s2 c s3 v r
    using that skip_ws_Cons [of s q s1] parse_chars_shorter [of s1 k s2]
      skip_ws_Cons [of s2 c s3] length_skip_ws [of s3]
      parse_value_shorter(1) [of "skip_ws s3"]
    by force
  show ?thesis
    by (subst parse_members.simps)
       (auto simp: g split: list.splits option.splits)
qed

text \<open>The equations that evaluate the parser on a given text.\<close>

lemmas parse_simps = JSON_parse_def parse_value.simps parse_elements.simps
  parse_members.simps parse_number_def parse_int_part_def parse_frac_part_def
  parse_exp_part_def parse_exp_digits_def digits_val_def skip_ws_def is_ws_def
  is_digit_def js_def hex4_def hex_val_def simple_escape_def

section \<open>Properties of the run\<close>

lemma run_events_data:
  "list_all is_data evs \<Longrightarrow> settled st = None \<Longrightarrow>
   run_events st (evs @ rest) =
     run_events (st\<lparr>stdout := stdout st @ stdout_text evs,
                    stderr := stderr st @ stderr_text evs\<rparr>) rest"
proof (induction evs arbitrary: st)
  case Nil
  then show ?case by simp
next
  case (Cons ev evs)
  show ?case
  proof (cases ev)
    case (Stdout_data d)
    with Cons show ?thesis by (simp add: on_stdout_data_def)
  next
    case (Stderr_data d)
    with Cons show ?thesis by (simp add: on_stderr_data_def)
  qed (use Cons.prems in auto)
qed

lemma run_data:
  "list_all is_data evs \<Longrightarrow>
   runPythonScript p a (evs @ rest) = run_events (captured p a evs) rest"
  by (simp add: runPythonScript_def run_events_data captured_def)

lemma captured_unsettled: "settled (captured p a evs) = None"
  by (simp add: captured_def)

text \<open>Each of the three events that end a run settles a pending promise at once.\<close>

lemma run_close:
  "settled st = None \<Longrightarrow> run_events st (Close code # rest) = on_close code st"
  by (simp add: on_close_def settle_def emit_def split: option.splits)

lemma run_cancel:
  "settled st = None \<Longrightarrow> run_events st (Cancellation # rest) = on_cancellation st"
  by (simp add: on_cancellation_def settle_def emit_def)

lemma run_error:
  "settled st = None \<Longrightarrow> run_events st (Spawn_error m # rest) = on_error m st"
  by (simp add: on_error_def settle_def)

lemma close_nonzero:
  "code \<noteq> Some 0 \<Longrightarrow>
   on_close code (captured p a evs) =
     (captured p a evs)\<lparr>settled := Some (Rejected (js ''Python script failed with code ''
        @ code_text code @ js '': '' @ stderr_text evs))\<rparr>"
  by (simp add: on_close_def settle_def captured_def)

lemma close_zero_parsed:
  "JSON_parse (jsonPart (stdout_text evs)) = Some result \<Longrightarrow>
   on_close (Some 0) (captured p a evs) =
     (captured p a evs)\<lparr>settled := Some (Resolved result),
        trace := [Spawn p a, JSONParse (jsonPart (stdout_text evs))]\<rparr>"
  by (simp add: on_close_def settle_def emit_def captured_def)

lemma close_zero_unparsed:
  "JSON_parse (jsonPart (stdout_text evs)) = None \<Longrightarrow>
   on_close (Some 0) (captured p a evs) =
     (captured p a evs)\<lparr>settled := Some (Rejected (js ''Failed to parse Python script output: ''
          @ stdout_text evs)),
        trace := [Spawn p a, JSONParse (jsonPart (stdout_text evs))]\<rparr>"
  by (simp add: on_close_def settle_def emit_def captured_def)

text \<open>
  A resolved promise is never seen with the token cancelled: the listener of the token
  rejects at once, so that the test of \<^verbatim>\<open>token.isCancellationRequested\<close> after
  \<^verbatim>\<open>await\<close> cannot succeed.
\<close>

lemma handle_data_unsettled:
  "settled st = None \<Longrightarrow> settled (handle ev st) = None \<Longrightarrow>
   isCancellationRequested (handle ev st) = isCancellationRequested st"
  by (cases ev)
     (auto simp: on_stdout_data_def on_stderr_data_def on_close_def on_error_def
        on_cancellation_def settle_def emit_def split: option.splits if_splits)

lemma handle_resolved:
  "settled st = None \<Longrightarrow> settled (handle ev st) = Some (Resolved result) \<Longrightarrow>
   isCancellationRequested (handle ev st) = isCancellationRequested st"
  by (cases ev)
     (auto simp: on_stdout_data_def on_stderr_data_def on_close_def on_error_def
        on_cancellation_def settle_def emit_def split: option.splits if_splits)

lemma run_events_resolved:
  "settled st = None \<Longrightarrow> \<not> isCancellationRequested st \<Longrightarrow>
   settled (run_events st evs) = Some (Resolved result) \<Longrightarrow>
   \<not> isCancellationRequested (run_events st evs)"
proof (induction evs arbitrary: st)
  case Nil
  then show ?case by simp
next
  case (Cons ev evs)
  show ?case
  proof (cases "settled (handle ev st) = None")
    case True
    with Cons.prems handle_data_unsettled [OF Cons.prems(1) True] Cons.IH [of "handle ev st"]
    show ?thesis by simp
  next
    case False
    with Cons.prems handle_resolved [OF Cons.prems(1), of ev result]
    show ?thesis by simp
  qed
qed

lemma resolved_not_cancelled:
  "settled (runPythonScript p a evs) = Some (Resolved result) \<Longrightarrow>
   \<not> isCancellationRequested (runPythonScript p a evs)"
  unfolding runPythonScript_def by (rule run_events_resolved) simp_all

text \<open>A cancellation while the promise is pending kills the process and rejects.\<close>

lemma cancelled_run:
  assumes "list_all is_data evs"
  shows "runPythonScript p a (evs @ Cancellation # rest) =
           (captured p a evs)\<lparr>settled := Some (Rejected (js ''Operation was cancelled'')),
              isCancellationRequested := True, trace := [Spawn p a, ProcessKill]\<rparr>"
  using assms
  by (simp add: run_data run_cancel captured_unsettled)
     (simp add: on_cancellation_def settle_def emit_def captured_def)

section \<open>Exit with a status other than zero\<close>

text \<open>
  The text of an exit code in the message: \<^verbatim>\<open>null\<close> for no code, and otherwise the
  decimal numeral of the code, so that different codes have different texts.
\<close>

lemma digit_unit:
  assumes "d < 10"
  shows "is_digit (of_nat (48 + d)) \<and> uint (of_nat (48 + d) :: code_unit) = 48 + int d"
proof -
  from assms consider "d = 0" | "d = 1" | "d = 2" | "d = 3" | "d = 4" | "d = 5" | "d = 6"
    | "d = 7" | "d = 8" | "d = 9"
    by fastforce
  then show ?thesis by cases (simp_all add: is_digit_def)
qed

lemma nat_digits_not_empty: "nat_digits n \<noteq> []"
  by (subst nat_digits.simps) simp

lemma nat_digits_are_digits: "list_all is_digit (nat_digits n)"
proof (induction n rule: nat_digits.induct)
  case (1 n)
  show ?case
  proof (cases "n < 10")
    case True
    then show ?thesis using digit_unit [of n] by (subst nat_digits.simps) simp
  next
    case False
    with 1 digit_unit [of "n mod 10"] show ?thesis by (subst nat_digits.simps) simp
  qed
qed

lemma digits_val_snoc: "digits_val (ds @ [d]) = 10 * digits_val ds + (uint d - 0x30)"
  by (simp add: digits_val_def)

lemma digits_val_nat_digits: "digits_val (nat_digits n) = int n"
proof (induction n rule: nat_digits.induct)
  case (1 n)
  show ?case
  proof (cases "n < 10")
    case True
    then show ?thesis using digit_unit [of n]
      by (subst nat_digits.simps) (simp add: digits_val_def)
  next
    case False
    with 1 digit_unit [of "n mod 10"] show ?thesis
      by (subst nat_digits.simps) (simp add: digits_val_snoc zmod_int zdiv_int)
  qed
qed

lemma nat_digits_no_minus: "hd (nat_digits n) \<noteq> MINUS"
proof -
  obtain c r where "nat_digits n = c # r" using nat_digits_not_empty [of n] by (cases "nat_digits n") auto
  moreover from this nat_digits_are_digits [of n] have "is_digit c" by simp
  ultimately show ?thesis by (auto simp: is_digit_def)
qed

lemma decimal_value_int_toString: "decimal_value (int_toString i) = Some i"
proof (cases "i < 0")
  case True
  then show ?thesis
    by (simp add: decimal_value_def int_toString_def nat_digits_not_empty nat_digits_are_digits
        digits_val_nat_digits)
next
  case False
  obtain c r where c: "nat_digits (nat i) = c # r"
    using nat_digits_not_empty [of "nat i"] by (cases "nat_digits (nat i)") auto
  with nat_digits_no_minus [of "nat i"] have "c \<noteq> MINUS" by simp
  with False c nat_digits_are_digits [of "nat i"] digits_val_nat_digits [of "nat i"]
  show ?thesis by (simp add: decimal_value_def int_toString_def)
qed

lemma decimal_value_null: "decimal_value (js ''null'') = None"
  by (simp add: decimal_value_def js_def is_digit_def)

lemma code_text_inject: "code_text c = code_text c' \<Longrightarrow> c = c'"
  using decimal_value_int_toString decimal_value_null
  by (cases c; cases c') (auto simp: code_text_def dest: arg_cong [where f = decimal_value])

text \<open>
  Claim C3. When the process closes with a code other than 0 (a number, or \<^verbatim>\<open>null\<close>
  after a signal), no cancellation or start error having come before, the promise is
  rejected with the text \<^verbatim>\<open>Python script failed with code <code>: <stderr>\<close>, where
  \<open>stderr\<close> is everything captured on the standard error; and the run has made no call
  of \<^verbatim>\<open>JSON.parse\<close>: its only call is the launch. The text of the code is \<^verbatim>\<open>null\<close>
  or the decimal numeral of the code, and no other code has the same text.
\<close>

theorem nonzero_exit_rejects_without_parsing:
  assumes "list_all is_data evs" and "code \<noteq> Some 0"
  shows "settled (runPythonScript p a (evs @ Close code # rest)) =
           Some (Rejected (js ''Python script failed with code '' @ code_text code
                           @ js '': '' @ stderr_text evs))
         \<and> trace (runPythonScript p a (evs @ Close code # rest)) = [Spawn p a]
         \<and> (case code of
               None \<Rightarrow> code_text code = js ''null''
             | Some i \<Rightarrow> decimal_value (code_text code) = Some i)
         \<and> (\<forall>c. code_text c = code_text code \<longrightarrow> c = code)"
proof -
  have "settled (runPythonScript p a (evs @ Close code # rest)) =
           Some (Rejected (js ''Python script failed with code '' @ code_text code
                           @ js '': '' @ stderr_text evs))
         \<and> trace (runPythonScript p a (evs @ Close code # rest)) = [Spawn p a]"
    using assms
    by (simp add: run_data run_close captured_unsettled close_nonzero) (simp add: captured_def)
  moreover have "case code of
               None \<Rightarrow> code_text code = js ''null''
             | Some i \<Rightarrow> decimal_value (code_text code) = Some i"
    by (cases code) (simp_all add: code_text_def decimal_value_int_toString)
  moreover have "\<forall>c. code_text c = code_text code \<longrightarrow> c = code"
    using code_text_inject by blast
  ultimately show ?thesis by blast
qed

text \<open>
  The example of the specification, exit code 1 with \<^verbatim>\<open>ModuleNotFoundError\<close> on the
  standard error in two chunks; then exit code 255, a process ended by a signal, and the
  negative code of a failed start.
\<close>

theorem nonzero_exit_rejects_without_parsing_witness:
  "list_all is_data [Stderr_data (js ''ModuleNot''), Stderr_data (js ''FoundError'')]
   \<and> Some 1 \<noteq> Some (0::int)
   \<and> settled (runPythonScript (js ''python'') []
         [Stderr_data (js ''ModuleNot''), Stderr_data (js ''FoundError''), Close (Some 1)])
       = Some (Rejected (js ''Python script failed with code 1: ModuleNotFoundError''))
   \<and> trace (runPythonScript (js ''python'') []
         [Stderr_data (js ''ModuleNot''), Stderr_data (js ''FoundError''), Close (Some 1)])
       = [Spawn (js ''python'') []]
   \<and> settled (runPythonScript (js ''python'') []
         [Stdout_data (js ''{}''), Stderr_data (js ''fatal''), Close (Some 255)])
       = Some (Rejected (js ''Python script failed with code 255: fatal''))
   \<and> settled (runPythonScript (js ''python'') [] [Stderr_data (js ''Killed''), Close None])
       = Some (Rejected (js ''Python script failed with code null: Killed''))
   \<and> settled (runPythonScript (js ''python'') [] [Close (Some (- 2))])
       = Some (Rejected (js ''Python script failed with code -2: ''))"
proof -
  have d: "list_all is_data [Stderr_data (js ''ModuleNot''), Stderr_data (js ''FoundError'')]"
    "list_all is_data [Stdout_data (js ''{}''), Stderr_data (js ''fatal'')]"
    "list_all is_data [Stderr_data (js ''Killed'')]"
    "list_all is_data []"
    by simp_all
  have c: "Some 1 \<noteq> Some (0::int)" "Some 255 \<noteq> Some (0::int)" "None \<noteq> Some (0::int)"
    "Some (- 2) \<noteq> Some (0::int)"
    by simp_all
  from nonzero_exit_rejects_without_parsing [OF d(1) c(1), of "js ''python''" "[]" "[]"]
    nonzero_exit_rejects_without_parsing [OF d(2) c(2), of "js ''python''" "[]" "[]"]
    nonzero_exit_rejects_without_parsing [OF d(3) c(3), of "js ''python''" "[]" "[]"]
    nonzero_exit_rejects_without_parsing [OF d(4) c(4), of "js ''python''" "[]" "[]"]
  show ?thesis
    by (simp add: code_text_def int_toString_def nat_digits.simps js_def)
qed

section \<open>Clean exit: extraction and parsing\<close>

lemma lastIndexOf_from_absent:
  "c \<notin> set xs \<Longrightarrow> lastIndexOf_from i found xs c = found"
  by (induction xs arbitrary: i found) auto

lemma lastIndexOf_from_append:
  "lastIndexOf_from i found (xs @ ys) c =
     lastIndexOf_from (i + int (length xs)) (lastIndexOf_from i found xs c) ys c"
  by (induction xs arbitrary: i found) (auto simp: algebra_simps)

lemma lastIndexOf_last:
  "c \<notin> set body \<Longrightarrow> lastIndexOf (pre @ c # body) c = int (length pre)"
  by (simp add: lastIndexOf_def lastIndexOf_from_append lastIndexOf_from_absent)

lemma lastIndexOf_none: "c \<notin> set s \<Longrightarrow> lastIndexOf s c = - 1"
  by (simp add: lastIndexOf_def lastIndexOf_from_absent)

text \<open>
  What the extraction hands to the parser: the text from the last opening brace on, or
  the whole text when it has no brace.
\<close>

lemma jsonPart_last_brace:
  "LBRACE \<notin> set body \<Longrightarrow> jsonPart (pre @ LBRACE # body) = LBRACE # body"
  by (simp add: jsonPart_def lastIndexOf_last substring_def)

lemma jsonPart_no_brace: "LBRACE \<notin> set s \<Longrightarrow> jsonPart s = s"
  by (simp add: jsonPart_def lastIndexOf_none substring_def)

lemma clean_exit_resolves:
  assumes "list_all is_data evs" and "JSON_parse (jsonPart (stdout_text evs)) = Some result"
  shows "settled (runPythonScript p a (evs @ Close (Some 0) # rest)) = Some (Resolved result)"
  using assms by (simp add: run_data run_close captured_unsettled close_zero_parsed)

text \<open>
  A trailing object whose only opening brace is its first character is extracted exactly,
  whatever comes before it.
\<close>

lemma trailing_object_extracted:
  assumes "list_all is_data evs" and "stdout_text evs = pre @ LBRACE # body"
    and "LBRACE \<notin> set body" and "JSON_parse (LBRACE # body) = Some result"
  shows "settled (runPythonScript p a (evs @ Close (Some 0) # rest)) = Some (Resolved result)"
  using assms by (simp add: clean_exit_resolves jsonPart_last_brace)

text \<open>
  The example of the specification: a line of log text, then an object with no brace
  inside it.
\<close>

lemma spec_example_resolves:
  "settled (runPythonScript (js ''python'') []
        [Stdout_data (js ''Cloning...\<newline>{\"success\": true, \"commit_message\": \"feat: add parser\"}''),
         Close (Some 0)])
     = Some (Resolved (JObject [(js ''success'', JBool True),
                      (js ''commit_message'', JString (js ''feat: add parser''))]))"
  by (simp add: runPythonScript_def on_stdout_data_def on_close_def settle_def emit_def
      jsonPart_def lastIndexOf_def substring_def parse_simps)

text \<open>
  Claim C1. The claim is that a trailing well-formed JSON object is extracted exactly
  and parsed into the Result, whatever text comes before it. The source takes the text
  from the \<^emph>\<open>last\<close> opening brace. Here the output is a log line and then an object
  that \<^verbatim>\<open>JSON.parse\<close> accepts on its own, whose commit message contains a pair of
  braces: the extraction hands the parser the tail \<^verbatim>\<open>{} in templates"}\<close>, which is not
  JSON, and the promise is rejected as unparseable output instead of resolved with the
  object. (What holds for every output is \<open>trailing_object_extracted\<close>: the object
  must have no opening brace after its first character.)
\<close>

theorem inner_brace_breaks_extraction:
  "JSON_parse (js ''{\"success\": true, \"commit_message\": \"fix: handle {} in templates\"}'')
     = Some (JObject [(js ''success'', JBool True),
                      (js ''commit_message'', JString (js ''fix: handle {} in templates''))])
   \<and> jsonPart (js ''log line\<newline>{\"success\": true, \"commit_message\": \"fix: handle {} in templates\"}'')
     = js ''{} in templates\"}''
   \<and> settled (runPythonScript (js ''python'') []
        [Stdout_data (js ''log line\<newline>{\"success\": true, \"commit_message\": \"fix: handle {} in templates\"}''),
         Close (Some 0)])
     = Some (Rejected (js ''Failed to parse Python script output: log line\<newline>{\"success\": true, \"commit_message\": \"fix: handle {} in templates\"}''))"
  by (simp add: runPythonScript_def on_stdout_data_def on_close_def settle_def emit_def
      jsonPart_def lastIndexOf_def substring_def parse_simps)

text \<open>
  Claim C7. When the process closes with code 0 and \<^verbatim>\<open>JSON.parse\<close> throws on the
  extracted text, the promise is rejected with \<^verbatim>\<open>Failed to parse Python script output:
  <stdout>\<close>, carrying everything captured on the standard output; and this text is never
  the text of the rejection after a nonzero exit, whatever the code and the captured
  error text are.
\<close>

theorem unparseable_output_rejects:
  assumes "list_all is_data evs" and "JSON_parse (jsonPart (stdout_text evs)) = None"
  shows "settled (runPythonScript p a (evs @ Close (Some 0) # rest)) =
           Some (Rejected (js ''Failed to parse Python script output: '' @ stdout_text evs))
         \<and> js ''Failed to parse Python script output: '' @ stdout_text evs
             \<noteq> js ''Python script failed with code '' @ code_text code @ js '': '' @ err"
  using assms
  by (simp add: run_data run_close captured_unsettled close_zero_unparsed) (simp add: js_def)

theorem unparseable_output_rejects_witness:
  "list_all is_data [Stdout_data (js ''Traceback: no output'')]
   \<and> JSON_parse (jsonPart (stdout_text [Stdout_data (js ''Traceback: no output'')])) = None
   \<and> settled (runPythonScript (js ''python'') []
         [Stdout_data (js ''Traceback: no output''), Close (Some 0)])
       = Some (Rejected (js ''Failed to parse Python script output: Traceback: no output''))"
  using unparseable_output_rejects
    [of "[Stdout_data (js ''Traceback: no output'')]" "js ''python''" "[]" "[]"]
  by (simp add: jsonPart_def lastIndexOf_def substring_def parse_simps)

section \<open>Cancellation\<close>

text \<open>
  Every invocation cancelled while its process runs ends with a notice of error
  severity.
\<close>

lemma cancelled_command:
  assumes "workspaceFolder w = Some folder" and "googleApiKey (config w) = Some apiKey"
    and "apiKey \<noteq> []" and "list_all is_data evs" and "events w = evs @ Cancellation # rest"
  shows "generateCommitMessage h w =
           started h w folder apiKey
           @ [ProcessKill,
              ConsoleError (js ''Error in generateCommitMessage:'')
                (Error (js ''Operation was cancelled'')),
              ShowErrorMessage (js ''Failed to generate commit message: Operation was cancelled'') []]"
  using assms(1-3,5) cancelled_run [OF assms(4)]
  by (simp add: generateCommitMessage_def progress_task_def started_def captured_def
      catch_handler_def) (simp add: js_def)

text \<open>
  Claim C2. The claim is that a cancellation requested before the process exits ends
  the invocation in a cancelled state that is not treated as an error, with no notice of
  error severity. In the source the listener of the token kills the process and rejects
  the promise with an Error; the rejection leaves the callback before the test of
  \<^verbatim>\<open>token.isCancellationRequested\<close> and reaches the \<^verbatim>\<open>catch\<close> of the command, which
  shows it with \<^verbatim>\<open>showErrorMessage\<close>; the silent return after that test is never
  taken (\<open>resolved_not_cancelled\<close>). Here the token is cancelled after a first chunk of
  output, and the process then ends by the signal.
\<close>

theorem cancellation_shows_error_notice:
  "generateCommitMessage example_host
     (example_world [Stdout_data (js ''Analyzing''), Cancellation, Close None]) =
   [WithProgress (js ''Generating commit message with AI...''),
    ProgressReport 20 (js ''Analyzing git changes...''),
    Spawn (js ''python'')
      [js ''/home/dev/.vscode/extensions/auto-commit/py/commit_generator.py'',
       js ''/home/dev/project'', js ''--api-key'', js ''KEY'', js ''--model'',
       js ''gemini-1.5-flash'', js ''--temperature'', js ''0.3'', js ''--max-tokens'',
       js ''100'', js ''--json''],
    ProcessKill,
    ConsoleError (js ''Error in generateCommitMessage:'') (Error (js ''Operation was cancelled'')),
    ShowErrorMessage (js ''Failed to generate commit message: Operation was cancelled'') []]"
  by (simp add: generateCommitMessage_def example_world_def example_host_def progress_task_def
      runPythonScript_def on_stdout_data_def on_cancellation_def settle_def emit_def
      catch_handler_def spawn_args_def string_or_def number_or_toString_def js_def)

section \<open>The missing credential\<close>

text \<open>
  Claim C4. When the setting \<^verbatim>\<open>googleApiKey\<close> is undefined or empty, the command
  launches no process: it shows one notice (that no workspace folder is open, or else
  that the key is not configured, with the button that opens the settings) and returns.
  The statement is about the command that generates a message; the checks of the
  interpreter that the extension runs when it is activated are another path.
\<close>

theorem missing_credential_short_circuits:
  assumes "googleApiKey (config w) = None \<or> googleApiKey (config w) = Some []"
  shows "spawned (generateCommitMessage h w) = []
         \<and> generateCommitMessage h w =
             (case workspaceFolder w of
                None \<Rightarrow> [ShowErrorMessage (js ''No workspace folder found. Please open a project.'') []]
              | Some folder \<Rightarrow> missing_key_notice w)"
  using assms
  by (auto simp: generateCommitMessage_def missing_key_notice_def split: option.splits)

theorem missing_credential_short_circuits_witness:
  "googleApiKey (config keyless_world) = Some []
   \<and> spawned (generateCommitMessage example_host keyless_world) = []
   \<and> generateCommitMessage example_host keyless_world
      = [ShowErrorMessage (js ''Google AI API Key is not configured. Please set it in settings.'')
           [js ''Open Settings'']]"
  using missing_credential_short_circuits [of keyless_world example_host]
  by (simp add: keyless_world_def missing_key_notice_def)

section \<open>The command around the run\<close>

text \<open>
  The calls of a whole invocation whose process writes its output and closes with code
  0, the output parsing to \<open>result\<close>; and of one whose process closes with another code.
\<close>

lemma command_resolved:
  assumes "workspaceFolder w = Some folder" and "googleApiKey (config w) = Some apiKey"
    and "apiKey \<noteq> []" and "list_all is_data evs" and "events w = evs @ Close (Some 0) # rest"
    and "JSON_parse (jsonPart (stdout_text evs)) = Some result"
  shows "generateCommitMessage h w =
           started h w folder apiKey
           @ JSONParse (jsonPart (stdout_text evs))
           # ProgressReport 60 (js ''Processing AI response...'')
           # fst (route_result h w result)
           @ (case snd (route_result h w result) of
                None \<Rightarrow> [] | Some err \<Rightarrow> catch_handler h err)"
proof -
  have "runPythonScript p a (events w) =
          (captured p a evs)\<lparr>settled := Some (Resolved result),
             trace := [Spawn p a, JSONParse (jsonPart (stdout_text evs))]\<rparr>" for p a
    using assms(4-6) by (simp add: run_data run_close captured_unsettled close_zero_parsed)
  then show ?thesis
    using assms(1-3)
    by (simp add: generateCommitMessage_def progress_task_def started_def after_run_def
        captured_def split: prod.splits)
qed

lemma command_rejected:
  assumes "workspaceFolder w = Some folder" and "googleApiKey (config w) = Some apiKey"
    and "apiKey \<noteq> []" and "list_all is_data evs" and "events w = evs @ Close code # rest"
    and "code \<noteq> Some 0"
  shows "generateCommitMessage h w =
           started h w folder apiKey
           @ catch_handler h (Error (js ''Python script failed with code '' @ code_text code
                                      @ js '': '' @ stderr_text evs))"
proof -
  have "runPythonScript p a (events w) =
          (captured p a evs)\<lparr>settled := Some (Rejected (js ''Python script failed with code ''
             @ code_text code @ js '': '' @ stderr_text evs))\<rparr>" for p a
    using assms(4-6) by (simp add: run_data run_close captured_unsettled close_nonzero)
  then show ?thesis
    using assms(1-3)
    by (simp add: generateCommitMessage_def progress_task_def started_def captured_def)
qed


lemma route_failure:
  assumes "result \<noteq> JNull"
    and "\<not> (truthy_opt (property result (js ''success''))
            \<and> truthy_opt (property result (js ''commit_message'')))"
  shows "route_result h w result = on_failure h (property result (js ''error''))"
  using assms by (auto simp: route_result_def split: option.splits)

text \<open>The test for the substring holds exactly when the text contains it.\<close>

lemma String_includes_iff:
  "String_includes s t \<longleftrightarrow> (\<exists>pre post. s = pre @ t @ post)"
proof (induction s)
  case Nil
  show ?case by auto
next
  case (Cons c s)
  show ?case
  proof
    assume "String_includes (c # s) t"
    then consider "take (length t) (c # s) = t" | "String_includes s t" by auto
    then show "\<exists>pre post. c # s = pre @ t @ post"
    proof cases
      case 1
      then have "c # s = [] @ t @ drop (length t) (c # s)"
        by (metis append_Nil append_take_drop_id)
      then show ?thesis by blast
    next
      case 2
      with Cons.IH obtain pre post where "s = pre @ t @ post" by blast
      then have "c # s = (c # pre) @ t @ post" by simp
      then show ?thesis by blast
    qed
  next
    assume "\<exists>pre post. c # s = pre @ t @ post"
    then obtain pre post where e: "c # s = pre @ t @ post" by blast
    show "String_includes (c # s) t"
    proof (cases pre)
      case Nil
      with e have "take (length t) (c # s) = t" by simp
      then show ?thesis by simp
    next
      case (Cons d pre')
      with e have "s = pre' @ t @ post" by simp
      with Cons.IH have "String_includes s t" by blast
      then show ?thesis by simp
    qed
  qed
qed

lemma on_failure_text:
  assumes "error_or_default err = JString text"
  shows "on_failure h err =
           (if String_includes text (js ''No changes detected'')
            then ([ShowWarningMessage (js ''No changes detected to generate commit message.'')], None)
            else ([ShowErrorMessage (js ''Error: '' @ text) []], None))"
  using assms by (simp add: on_failure_def)

section \<open>The launch\<close>

lemma spawned_append: "spawned (xs @ ys) = spawned xs @ spawned ys"
  by (induction xs rule: spawned.induct) simp_all

lemma spawned_handle: "spawned (trace (handle ev st)) = spawned (trace st)"
  by (cases ev)
     (simp_all add: on_stdout_data_def on_stderr_data_def on_close_def on_error_def
        on_cancellation_def settle_def emit_def spawned_append split: option.splits)

lemma spawned_run_events: "spawned (trace (run_events st evs)) = spawned (trace st)"
  by (induction evs arbitrary: st) (simp_all add: spawned_handle)

lemma spawned_runPythonScript: "spawned (trace (runPythonScript p a evs)) = [(p, a)]"
  by (simp add: runPythonScript_def spawned_run_events)

lemma spawned_on_failure: "spawned (fst (on_failure h err)) = []"
  by (simp add: on_failure_def split: sum.splits)

lemma spawned_on_success: "spawned (fst (on_success h repos m)) = []"
  by (simp add: on_success_def split: sum.splits)

lemma spawned_route_result: "spawned (fst (route_result h w result)) = []"
  by (simp add: route_result_def spawned_on_failure spawned_on_success split: option.splits prod.splits)
     (metis fst_conv spawned_on_success)

lemma spawned_after_run: "spawned (fst (after_run h w c result)) = []"
  by (simp add: after_run_def split: prod.splits) (metis fst_conv spawned_route_result)

lemma spawned_catch: "spawned (catch_handler h e) = []"
  by (simp add: catch_handler_def)

lemma spawned_progress_task:
  "spawned (fst (progress_task h w folder apiKey)) =
     [(string_or (pythonPath (config w)) (js ''python''), spawn_args h w folder apiKey)]"
  apply (simp add: progress_task_def Let_def spawned_runPythonScript spawned_append
      split: option.splits outcome.splits prod.splits)
  apply (metis fst_conv spawned_after_run)
  done

lemma spawned_command:
  assumes "workspaceFolder w = Some folder" and "googleApiKey (config w) = Some apiKey"
    and "apiKey \<noteq> []"
  shows "spawned (generateCommitMessage h w) =
           [(string_or (pythonPath (config w)) (js ''python''), spawn_args h w folder apiKey)]"
  using assms spawned_progress_task [of h w folder apiKey]
  by (simp add: generateCommitMessage_def spawned_append spawned_catch split_beta
      split: option.splits)

text \<open>
  Claim C8. Every invocation that has a workspace folder and an API key launches exactly
  one process: the interpreter, with the path of the script first, the path of the
  workspace folder second, and then \<^verbatim>\<open>--api-key\<close> with the key, \<^verbatim>\<open>--model\<close> with the
  model, \<^verbatim>\<open>--temperature\<close> and \<^verbatim>\<open>--max-tokens\<close> with the texts of the two numbers,
  and \<^verbatim>\<open>--json\<close>.
\<close>

theorem generator_invocation_arguments:
  assumes "workspaceFolder w = Some folder" and "googleApiKey (config w) = Some apiKey"
    and "apiKey \<noteq> []"
  shows "spawned (generateCommitMessage h w) =
     [(string_or (pythonPath (config w)) (js ''python''),
       [path_join h [extensionPath w, js ''py'', js ''commit_generator.py''],
        folder,
        js ''--api-key'', apiKey,
        js ''--model'', string_or (model (config w)) (js ''gemini-1.5-flash''),
        js ''--temperature'', number_or_toString h (temperature (config w)) (js ''0.3''),
        js ''--max-tokens'', number_or_toString h (maxTokens (config w)) (js ''100''),
        js ''--json''])]"
  using spawned_command [OF assms, of h] by (simp add: spawn_args_def)

theorem generator_invocation_arguments_witness:
  "workspaceFolder configured_world = Some (js ''/home/dev/project'')
   \<and> googleApiKey (config configured_world) = Some (js ''KEY'')
   \<and> js ''KEY'' \<noteq> []
   \<and> spawned (generateCommitMessage example_host configured_world) =
       [(js ''/usr/bin/python3'',
         [js ''/home/dev/.vscode/extensions/auto-commit/py/commit_generator.py'',
          js ''/home/dev/project'',
          js ''--api-key'', js ''KEY'',
          js ''--model'', js ''gemini-1.5-pro'',
          js ''--temperature'', js ''0.3'',
          js ''--max-tokens'', js ''200'',
          js ''--json''])]"
proof -
  have f: "workspaceFolder configured_world = Some (js ''/home/dev/project'')"
    and k: "googleApiKey (config configured_world) = Some (js ''KEY'')"
    and n: "js ''KEY'' \<noteq> []"
    by (simp_all add: configured_world_def js_def)
  from generator_invocation_arguments [OF f k n, of example_host] f k n show ?thesis
    by (simp add: configured_world_def example_host_def string_or_def number_or_toString_def
        number_is_zero_def int_toString_def nat_digits.simps js_def)
qed

text \<open>
  Claim C10. A setting that is undefined, empty or zero is replaced before the launch:
  the interpreter by \<^verbatim>\<open>python\<close>, the model by \<^verbatim>\<open>gemini-1.5-flash\<close>, the temperature
  by \<^verbatim>\<open>0.3\<close> and the token limit by \<^verbatim>\<open>100\<close>; the arguments are counted from 0, so
  that 5, 7 and 9 are the values after \<^verbatim>\<open>--model\<close>, \<^verbatim>\<open>--temperature\<close> and
  \<^verbatim>\<open>--max-tokens\<close>. (The key has no default: without one nothing is launched.)
\<close>

theorem falsy_settings_take_defaults:
  assumes "workspaceFolder w = Some folder" and "googleApiKey (config w) = Some apiKey"
    and "apiKey \<noteq> []"
  shows "\<exists>cmd args. spawned (generateCommitMessage h w) = [(cmd, args)]
           \<and> (falsy_string (pythonPath (config w)) \<longrightarrow> cmd = js ''python'')
           \<and> (falsy_string (model (config w)) \<longrightarrow> args ! 5 = js ''gemini-1.5-flash'')
           \<and> (falsy_number (temperature (config w)) \<longrightarrow> args ! 7 = js ''0.3'')
           \<and> (falsy_number (maxTokens (config w)) \<longrightarrow> args ! 9 = js ''100'')"
  using spawned_command [OF assms, of h]
  by (auto simp: spawn_args_def string_or_def number_or_toString_def falsy_string_def
      falsy_number_def split: option.splits)

text \<open>A temperature of 0, a token limit of 0, an empty interpreter path and an empty model.\<close>

theorem falsy_settings_take_defaults_witness:
  "falsy_string (pythonPath (config zeroed_world))
   \<and> falsy_string (model (config zeroed_world))
   \<and> falsy_number (temperature (config zeroed_world))
   \<and> falsy_number (maxTokens (config zeroed_world))
   \<and> spawned (generateCommitMessage example_host zeroed_world) =
       [(js ''python'',
         [js ''/home/dev/.vscode/extensions/auto-commit/py/commit_generator.py'',
          js ''/home/dev/project'',
          js ''--api-key'', js ''KEY'',
          js ''--model'', js ''gemini-1.5-flash'',
          js ''--temperature'', js ''0.3'',
          js ''--max-tokens'', js ''100'',
          js ''--json''])]"
proof -
  have f: "workspaceFolder zeroed_world = Some (js ''/home/dev/project'')"
    and k: "googleApiKey (config zeroed_world) = Some (js ''KEY'')"
    and n: "js ''KEY'' \<noteq> []"
    by (simp_all add: zeroed_world_def js_def)
  have falsy: "falsy_string (pythonPath (config zeroed_world))"
    "falsy_string (model (config zeroed_world))"
    "falsy_number (temperature (config zeroed_world))"
    "falsy_number (maxTokens (config zeroed_world))"
    by (simp_all add: zeroed_world_def falsy_string_def falsy_number_def number_is_zero_def)
  from falsy_settings_take_defaults [OF f k n, of example_host] falsy
  obtain cmd args where
    sp: "spawned (generateCommitMessage example_host zeroed_world) = [(cmd, args)]"
    and d: "cmd = js ''python''" "args ! 5 = js ''gemini-1.5-flash''"
      "args ! 7 = js ''0.3''" "args ! 9 = js ''100''"
    by blast
  have "spawned (generateCommitMessage example_host zeroed_world) =
          [(string_or (pythonPath (config zeroed_world)) (js ''python''),
            spawn_args example_host zeroed_world (js ''/home/dev/project'') (js ''KEY''))]"
    by (rule spawned_command [OF f k n])
  with sp d falsy show ?thesis
    by (simp add: spawn_args_def zeroed_world_def example_host_def js_def)
qed

section \<open>The branches on the result\<close>

lemma example_world_simps:
  "workspaceFolder (example_world evs) = Some (js ''/home/dev/project'')"
  "googleApiKey (config (example_world evs)) = Some (js ''KEY'')"
  "js ''KEY'' \<noteq> []"
  "events (example_world evs) = evs"
  "git_repositories (example_world evs) = Some 1"
  by (simp_all add: example_world_def js_def)

lemma started_example:
  "started example_host ((example_world evs)\<lparr>git_repositories := repos\<rparr>)
     (js ''/home/dev/project'') (js ''KEY'') =
   [WithProgress (js ''Generating commit message with AI...''),
    ProgressReport 20 (js ''Analyzing git changes...''),
    Spawn (js ''python'')
      [js ''/home/dev/.vscode/extensions/auto-commit/py/commit_generator.py'',
       js ''/home/dev/project'', js ''--api-key'', js ''KEY'', js ''--model'',
       js ''gemini-1.5-flash'', js ''--temperature'', js ''0.3'', js ''--max-tokens'',
       js ''100'', js ''--json'']]"
  by (simp add: started_def example_world_def example_host_def spawn_args_def string_or_def
      number_or_toString_def js_def)


lemmas command_simps = generateCommitMessage_def example_world_def example_host_def
  progress_task_def runPythonScript_def on_stdout_data_def on_stderr_data_def on_close_def
  on_cancellation_def on_error_def settle_def emit_def after_run_def route_result_def
  on_success_def on_failure_def error_or_default_def catch_handler_def spawn_args_def
  string_or_def number_or_toString_def code_text_def int_toString_def nat_digits.simps
  jsonPart_def lastIndexOf_def substring_def parse_simps



text \<open>
  Claim C5, as the specification has it, covers every failed invocation. A failure that
  arrives as a rejection is not inspected: here the process exits with code 1 and
  \<^verbatim>\<open>No changes detected\<close> on its standard error, the error text contains the substring,
  and the notice is of error severity.
\<close>

theorem nonzero_exit_no_changes_counterexample:
  "String_includes (js ''Python script failed with code 1: No changes detected'')
     (js ''No changes detected'')
   \<and> generateCommitMessage example_host
        (example_world [Stderr_data (js ''No changes detected''), Close (Some 1)]) =
      [WithProgress (js ''Generating commit message with AI...''),
       ProgressReport 20 (js ''Analyzing git changes...''),
       Spawn (js ''python'')
         [js ''/home/dev/.vscode/extensions/auto-commit/py/commit_generator.py'',
          js ''/home/dev/project'', js ''--api-key'', js ''KEY'', js ''--model'',
          js ''gemini-1.5-flash'', js ''--temperature'', js ''0.3'', js ''--max-tokens'',
          js ''100'', js ''--json''],
       ConsoleError (js ''Error in generateCommitMessage:'')
         (Error (js ''Python script failed with code 1: No changes detected'')),
       ShowErrorMessage
         (js ''Failed to generate commit message: Python script failed with code 1: No changes detected'')
         []]"
  by (simp add: command_simps)

text \<open>
  Claim C5, amended. When the process closes with code 0 and its output parses to a
  value that does not take the success branch, the error text is \<^verbatim>\<open>result.error\<close>, or
  \<^verbatim>\<open>Failed to generate commit message\<close> when that is absent or empty. If the text
  contains \<^verbatim>\<open>No changes detected\<close>, the notice is a warning; otherwise it is an error
  notice \<^verbatim>\<open>Error: <text>\<close>.
\<close>

theorem failure_result_notice:
  assumes "workspaceFolder w = Some folder" and "googleApiKey (config w) = Some apiKey"
    and "apiKey \<noteq> []" and "list_all is_data evs" and "events w = evs @ Close (Some 0) # rest"
    and "JSON_parse (jsonPart (stdout_text evs)) = Some result"
    and "result \<noteq> JNull"
    and "\<not> (truthy_opt (property result (js ''success''))
            \<and> truthy_opt (property result (js ''commit_message'')))"
    and "error_or_default (property result (js ''error'')) = JString text"
  shows "generateCommitMessage h w =
           started h w folder apiKey
           @ [JSONParse (jsonPart (stdout_text evs)),
              ProgressReport 60 (js ''Processing AI response...''),
              if String_includes text (js ''No changes detected'')
              then ShowWarningMessage (js ''No changes detected to generate commit message.'')
              else ShowErrorMessage (js ''Error: '' @ text) []]"
  using command_resolved [OF assms(1-6), of h] route_failure [OF assms(7,8), of h w]
    on_failure_text [OF assms(9), of h]
  by simp

text \<open>The example of the specification, and an error text without the substring.\<close>

theorem failure_result_notice_witness:
  "generateCommitMessage example_host
     (example_world
        [Stdout_data (js ''{\"success\": false, \"error\": \"No changes detected in repository\"}''),
         Close (Some 0)]) =
   [WithProgress (js ''Generating commit message with AI...''),
    ProgressReport 20 (js ''Analyzing git changes...''),
    Spawn (js ''python'')
      [js ''/home/dev/.vscode/extensions/auto-commit/py/commit_generator.py'',
       js ''/home/dev/project'', js ''--api-key'', js ''KEY'', js ''--model'',
       js ''gemini-1.5-flash'', js ''--temperature'', js ''0.3'', js ''--max-tokens'',
       js ''100'', js ''--json''],
    JSONParse (js ''{\"success\": false, \"error\": \"No changes detected in repository\"}''),
    ProgressReport 60 (js ''Processing AI response...''),
    ShowWarningMessage (js ''No changes detected to generate commit message.'')]
   \<and> generateCommitMessage example_host
     (example_world
        [Stdout_data (js ''{\"success\": false, \"error\": \"API quota exceeded\"}''),
         Close (Some 0)]) =
   [WithProgress (js ''Generating commit message with AI...''),
    ProgressReport 20 (js ''Analyzing git changes...''),
    Spawn (js ''python'')
      [js ''/home/dev/.vscode/extensions/auto-commit/py/commit_generator.py'',
       js ''/home/dev/project'', js ''--api-key'', js ''KEY'', js ''--model'',
       js ''gemini-1.5-flash'', js ''--temperature'', js ''0.3'', js ''--max-tokens'',
       js ''100'', js ''--json''],
    JSONParse (js ''{\"success\": false, \"error\": \"API quota exceeded\"}''),
    ProgressReport 60 (js ''Processing AI response...''),
    ShowErrorMessage (js ''Error: API quota exceeded'') []]"
proof -
  let ?out1 = "js ''{\"success\": false, \"error\": \"No changes detected in repository\"}''"
  let ?r1 = "JObject [(js ''success'', JBool False),
                      (js ''error'', JString (js ''No changes detected in repository''))]"
  let ?out2 = "js ''{\"success\": false, \"error\": \"API quota exceeded\"}''"
  let ?r2 = "JObject [(js ''success'', JBool False),
                      (js ''error'', JString (js ''API quota exceeded''))]"
  have d: "list_all is_data [Stdout_data out]" for out by simp
  have e: "events (example_world [Stdout_data out, Close (Some 0)])
             = [Stdout_data out] @ Close (Some 0) # []" for out
    by (simp add: example_world_def)
  have j1: "jsonPart (stdout_text [Stdout_data ?out1]) = ?out1"
    and j2: "jsonPart (stdout_text [Stdout_data ?out2]) = ?out2"
    by (simp_all add: jsonPart_def lastIndexOf_def substring_def js_def)
  have p1: "JSON_parse (jsonPart (stdout_text [Stdout_data ?out1])) = Some ?r1"
    and p2: "JSON_parse (jsonPart (stdout_text [Stdout_data ?out2])) = Some ?r2"
    unfolding j1 j2 by (simp_all add: parse_simps)
  have n: "?r1 \<noteq> JNull" "?r2 \<noteq> JNull" by simp_all
  have b1: "\<not> (truthy_opt (property ?r1 (js ''success''))
              \<and> truthy_opt (property ?r1 (js ''commit_message'')))"
    and b2: "\<not> (truthy_opt (property ?r2 (js ''success''))
              \<and> truthy_opt (property ?r2 (js ''commit_message'')))"
    by (simp_all add: js_def)
  have t1: "error_or_default (property ?r1 (js ''error''))
              = JString (js ''No changes detected in repository'')"
    and t2: "error_or_default (property ?r2 (js ''error'')) = JString (js ''API quota exceeded'')"
    by (simp_all add: error_or_default_def js_def)
  have i1: "String_includes (js ''No changes detected in repository'') (js ''No changes detected'')"
    and i2: "\<not> String_includes (js ''API quota exceeded'') (js ''No changes detected'')"
    by (simp_all add: js_def)
  have a: "started example_host (example_world evs) (js ''/home/dev/project'') (js ''KEY'') =
           started example_host ((example_world evs)\<lparr>git_repositories := Some 1\<rparr>)
             (js ''/home/dev/project'') (js ''KEY'')" for evs
    by (simp add: example_world_def)
  from failure_result_notice
         [OF example_world_simps(1-3) d e p1 n(1) b1 t1, of example_host]
       failure_result_notice
         [OF example_world_simps(1-3) d e p2 n(2) b2 t2, of example_host]
  show ?thesis
    unfolding a started_example j1 j2 using i1 i2 by (simp add: js_def)
qed

text \<open>
  Claim C9, as stated, promises the default error text whenever \<^verbatim>\<open>success\<close> is true and
  the commit message is missing. A result that also carries an error text is shown with
  that text.
\<close>

theorem success_with_error_text_counterexample:
  "property (JObject [(js ''success'', JBool True), (js ''error'', JString (js ''boom''))])
      (js ''commit_message'') = None
   \<and> generateCommitMessage example_host
     (example_world [Stdout_data (js ''{\"success\": true, \"error\": \"boom\"}''), Close (Some 0)]) =
   [WithProgress (js ''Generating commit message with AI...''),
    ProgressReport 20 (js ''Analyzing git changes...''),
    Spawn (js ''python'')
      [js ''/home/dev/.vscode/extensions/auto-commit/py/commit_generator.py'',
       js ''/home/dev/project'', js ''--api-key'', js ''KEY'', js ''--model'',
       js ''gemini-1.5-flash'', js ''--temperature'', js ''0.3'', js ''--max-tokens'',
       js ''100'', js ''--json''],
    JSONParse (js ''{\"success\": true, \"error\": \"boom\"}''),
    ProgressReport 60 (js ''Processing AI response...''),
    ShowErrorMessage (js ''Error: boom'') []]"
  by (simp add: command_simps)

lemma success_effects_append: "success_effects (xs @ ys) = success_effects xs @ success_effects ys"
  by (induction xs rule: success_effects.induct) simp_all

lemma success_effects_on_failure: "success_effects (fst (on_failure h err)) = []"
  by (simp add: on_failure_def split: sum.splits)

lemma success_effects_catch: "success_effects (catch_handler h e) = []"
  by (simp add: catch_handler_def)

lemma success_effects_started: "success_effects (started h w folder apiKey) = []"
  by (simp add: started_def)

text \<open>
  Claim C9, amended. When the process closes with code 0 and its output parses to a
  value whose \<^verbatim>\<open>success\<close> is \<^verbatim>\<open>true\<close> and whose \<^verbatim>\<open>commit_message\<close> is falsy (absent
  or empty, for a string), the command takes the failure branch and makes none of the
  calls of the success branch; when \<^verbatim>\<open>error\<close> is falsy too, its notice is the error
  notice with the default text.
\<close>

theorem success_without_message_fails:
  assumes "workspaceFolder w = Some folder" and "googleApiKey (config w) = Some apiKey"
    and "apiKey \<noteq> []" and "list_all is_data evs" and "events w = evs @ Close (Some 0) # rest"
    and "JSON_parse (jsonPart (stdout_text evs)) = Some result"
    and "property result (js ''success'') = Some (JBool True)"
    and "\<not> truthy_opt (property result (js ''commit_message''))"
  shows "route_result h w result = on_failure h (property result (js ''error''))
         \<and> success_effects (generateCommitMessage h w) = []
         \<and> (\<not> truthy_opt (property result (js ''error'')) \<longrightarrow>
              generateCommitMessage h w =
                started h w folder apiKey
                @ [JSONParse (jsonPart (stdout_text evs)),
                   ProgressReport 60 (js ''Processing AI response...''),
                   ShowErrorMessage (js ''Error: Failed to generate commit message'') []])"
proof -
  have nn: "result \<noteq> JNull" using assms(7) by auto
  have route: "route_result h w result = on_failure h (property result (js ''error''))"
    using route_failure [OF nn, of h w] assms(8) by simp
  have cmd: "generateCommitMessage h w =
           started h w folder apiKey
           @ JSONParse (jsonPart (stdout_text evs))
           # ProgressReport 60 (js ''Processing AI response...'')
           # fst (on_failure h (property result (js ''error'')))
           @ (case snd (on_failure h (property result (js ''error''))) of
                None \<Rightarrow> [] | Some err \<Rightarrow> catch_handler h err)"
    using command_resolved [OF assms(1-6), of h] route by simp
  have none: "success_effects (generateCommitMessage h w) = []"
    by (simp add: cmd success_effects_append success_effects_started
        success_effects_on_failure success_effects_catch split: option.splits)
  have dflt: "generateCommitMessage h w =
                started h w folder apiKey
                @ [JSONParse (jsonPart (stdout_text evs)),
                   ProgressReport 60 (js ''Processing AI response...''),
                   ShowErrorMessage (js ''Error: Failed to generate commit message'') []]"
    if "\<not> truthy_opt (property result (js ''error''))"
  proof -
    have "error_or_default (property result (js ''error''))
            = JString (js ''Failed to generate commit message'')"
      using that by (cases "property result (js ''error'')") (simp_all add: error_or_default_def)
    from on_failure_text [OF this, of h] show ?thesis
      by (simp add: cmd) (simp add: js_def)
  qed
  from route none dflt show ?thesis by blast
qed

theorem success_without_message_fails_witness:
  "generateCommitMessage example_host
     (example_world [Stdout_data (js ''{\"success\": true}''), Close (Some 0)]) =
   [WithProgress (js ''Generating commit message with AI...''),
    ProgressReport 20 (js ''Analyzing git changes...''),
    Spawn (js ''python'')
      [js ''/home/dev/.vscode/extensions/auto-commit/py/commit_generator.py'',
       js ''/home/dev/project'', js ''--api-key'', js ''KEY'', js ''--model'',
       js ''gemini-1.5-flash'', js ''--temperature'', js ''0.3'', js ''--max-tokens'',
       js ''100'', js ''--json''],
    JSONParse (js ''{\"success\": true}''),
    ProgressReport 60 (js ''Processing AI response...''),
    ShowErrorMessage (js ''Error: Failed to generate commit message'') []]
   \<and> success_effects (generateCommitMessage example_host
     (example_world [Stdout_data (js ''{\"success\": true}''), Close (Some 0)])) = []"
proof -
  let ?out = "js ''{\"success\": true}''"
  let ?r = "JObject [(js ''success'', JBool True)]"
  have d: "list_all is_data [Stdout_data ?out]" by simp
  have e: "events (example_world [Stdout_data ?out, Close (Some 0)])
             = [Stdout_data ?out] @ Close (Some 0) # []"
    by (simp add: example_world_def)
  have j: "jsonPart (stdout_text [Stdout_data ?out]) = ?out"
    by (simp add: jsonPart_def lastIndexOf_def substring_def js_def)
  have p: "JSON_parse (jsonPart (stdout_text [Stdout_data ?out])) = Some ?r"
    unfolding j by (simp add: parse_simps)
  have s: "property ?r (js ''success'') = Some (JBool True)"
    and m: "\<not> truthy_opt (property ?r (js ''commit_message''))"
    and x: "\<not> truthy_opt (property ?r (js ''error''))"
    by (simp_all add: js_def)
  have a: "started example_host (example_world evs) (js ''/home/dev/project'') (js ''KEY'') =
           started example_host ((example_world evs)\<lparr>git_repositories := Some 1\<rparr>)
             (js ''/home/dev/project'') (js ''KEY'')" for evs
    by (simp add: example_world_def)
  from success_without_message_fails
         [OF example_world_simps(1-3) d e p s m, of example_host] x
  show ?thesis
    unfolding a started_example j by simp
qed

end
